theory Spec2Isabelle
  imports Complex_Main
begin

section \<open>JavaScript values used by the server\<close>

text \<open>
  A JavaScript string is a \<^typ>\<open>string\<close>; one \<^typ>\<open>char\<close> stands for one UTF-16 code
  unit, which is what \<^verbatim>\<open>length\<close>, \<^verbatim>\<open>substring\<close> and \<^verbatim>\<open>substr\<close> count.
  A value that may be \<^verbatim>\<open>undefined\<close> is an \<^typ>\<open>string option\<close>; it is truthy when it
  is present and not the empty string.
\<close>

definition nl :: string where
  "nl = [CHR 0x0A]"

definition truthy :: "string option \<Rightarrow> bool" where
  "truthy v = (case v of None \<Rightarrow> False | Some s \<Rightarrow> s \<noteq> [])"

text \<open>\<^verbatim>\<open>s.substring(a, b)\<close>: both indices are clamped to the length and swapped when
  \<^verbatim>\<open>a > b\<close>.\<close>

definition substring :: "nat \<Rightarrow> nat \<Rightarrow> string \<Rightarrow> string" where
  "substring a b s =
     (let a' = min a (length s); b' = min b (length s);
          lo = min a' b'; hi = max a' b'
      in take (hi - lo) (drop lo s))"

text \<open>\<^verbatim>\<open>s.substr(start, len)\<close> for a start that is not negative.\<close>

definition substr :: "nat \<Rightarrow> nat \<Rightarrow> string \<Rightarrow> string" where
  "substr start len s = take len (drop start s)"

text \<open>\<^verbatim>\<open>xs.join(sep)\<close>.\<close>

fun join :: "string \<Rightarrow> string list \<Rightarrow> string" where
  "join sep [] = []"
| "join sep [x] = x"
| "join sep (x # y # ys) = x @ sep @ join sep (y # ys)"

text \<open>\<^verbatim>\<open>s.includes(t)\<close>.\<close>

fun starts_with :: "string \<Rightarrow> string \<Rightarrow> bool" where
  "starts_with s [] = True"
| "starts_with [] (c # t) = False"
| "starts_with (d # s) (c # t) = (d = c \<and> starts_with s t)"

fun includes_str :: "string \<Rightarrow> string \<Rightarrow> bool" where
  "includes_str [] t = (t = [])"
| "includes_str (c # s) t = (starts_with (c # s) t \<or> includes_str s t)"

text \<open>\<^verbatim>\<open>s.toUpperCase()\<close> on the letters a to z. The server applies it to the type tags
  \<^verbatim>\<open>"pdf"\<close>, \<^verbatim>\<open>"text"\<close> and \<^verbatim>\<open>"url"\<close> only.\<close>

definition upper_char :: "char \<Rightarrow> char" where
  "upper_char c =
     (let n = of_char c :: nat in if 97 \<le> n \<and> n \<le> 122 then char_of (n - 32) else c)"

definition toUpperCase :: "string \<Rightarrow> string" where
  "toUpperCase s = map upper_char s"

text \<open>The decimal rendering of a natural number, as a template literal renders the
  integer \<^verbatim>\<open>Date.now()\<close>.\<close>

definition digit_char :: "nat \<Rightarrow> char" where
  "digit_char d = char_of (48 + d)"

fun decimal :: "nat \<Rightarrow> string" where
  "decimal n = (if n < 10 then [digit_char n] else decimal (n div 10) @ [digit_char (n mod 10)])"

declare decimal.simps [simp del]

text \<open>The number a string of decimal digits stands for.\<close>

definition digits_value :: "string \<Rightarrow> nat" where
  "digits_value s = foldl (\<lambda>a c. 10 * a + (of_char c - 48)) 0 s"

definition decimal_int :: "int \<Rightarrow> string" where
  "decimal_int i = (if i < 0 then CHR ''-'' # decimal (nat (- i)) else decimal (nat i))"

subsection \<open>JSON values and \<^verbatim>\<open>JSON.stringify(v, null, 2)\<close>\<close>

datatype json =
    JNull
  | JBool bool
  | JNum int
  | JStr string
  | JArr "json list"
  | JObj "(string \<times> json) list"

definition hex_char :: "nat \<Rightarrow> char" where
  "hex_char d = (if d < 10 then char_of (48 + d) else char_of (87 + d))"

text \<open>The escapes of a quoted JSON string: the quote, the backslash, and the control
  characters below U+0020.\<close>

definition escape_char :: "char \<Rightarrow> string" where
  "escape_char c =
     (let n = of_char c :: nat in
      if n = 34 then [CHR 0x5C, CHR 0x22]
      else if n = 92 then [CHR 0x5C, CHR 0x5C]
      else if n = 8 then [CHR 0x5C, CHR ''b'']
      else if n = 9 then [CHR 0x5C, CHR ''t'']
      else if n = 10 then [CHR 0x5C, CHR ''n'']
      else if n = 12 then [CHR 0x5C, CHR ''f'']
      else if n = 13 then [CHR 0x5C, CHR ''r'']
      else if n < 32 then [CHR 0x5C, CHR ''u'', CHR ''0'', CHR ''0'', hex_char (n div 16), hex_char (n mod 16)]
      else [c])"

definition quote :: "string \<Rightarrow> string" where
  "quote s = [CHR 0x22] @ concat (map escape_char s) @ [CHR 0x22]"

definition spaces :: "nat \<Rightarrow> string" where
  "spaces n = replicate n CHR '' ''"

text \<open>\<open>ser ind v\<close> is the text of \<open>v\<close> when it stands at indentation \<open>ind\<close>; every nesting
  level adds two spaces.\<close>

fun ser :: "nat \<Rightarrow> json \<Rightarrow> string" where
  "ser ind JNull = ''null''"
| "ser ind (JBool b) = (if b then ''true'' else ''false'')"
| "ser ind (JNum n) = decimal_int n"
| "ser ind (JStr s) = quote s"
| "ser ind (JArr xs) =
     (if xs = [] then ''[]''
      else ''['' @ nl @
           join ('','' @ nl) (map (\<lambda>x. spaces (ind + 2) @ ser (ind + 2) x) xs) @
           nl @ spaces ind @ '']'')"
| "ser ind (JObj kvs) =
     (if kvs = [] then ''{}''
      else ''{'' @ nl @
           join ('','' @ nl)
             (map (\<lambda>(k, v). spaces (ind + 2) @ quote k @ '': '' @ ser (ind + 2) v) kvs) @
           nl @ spaces ind @ ''}'')"

definition stringify :: "json \<Rightarrow> string" where
  "stringify v = ser 0 v"

text \<open>\<^verbatim>\<open>xs.findIndex(p)\<close>; \<open>None\<close> is the result \<^verbatim>\<open>-1\<close>.\<close>

fun findIndex :: "('a \<Rightarrow> bool) \<Rightarrow> 'a list \<Rightarrow> nat option" where
  "findIndex p [] = None"
| "findIndex p (x # xs) = (if p x then Some 0 else map_option Suc (findIndex p xs))"

text \<open>\<^verbatim>\<open>xs.splice(i, 1)\<close>: the removed elements and the array that is left.\<close>

definition splice1 :: "nat \<Rightarrow> 'a list \<Rightarrow> 'a list \<times> 'a list" where
  "splice1 i xs = (take 1 (drop i xs), take i xs @ drop (Suc i) xs)"

section \<open>Data model\<close>

text \<open>The metadata object a handler passes along with the text of a source
  (\<^verbatim>\<open>{type, title, url?, source?, timestamp?}\<close>).\<close>

record metadata =
  type_m :: string
  title_m :: string
  url_m :: "string option"
  source_m :: "string option"
  timestamp_m :: "string option"

text \<open>One entry of \<^verbatim>\<open>globalSourcesContext\<close>, the in-memory source registry.\<close>

record sourceInfo =
  id_s :: string
  type_s :: string
  title_s :: string
  content_s :: string
  timestamp_s :: string
  url_s :: "string option"

text \<open>A document handed to, and returned by, the vector store client:
  \<^verbatim>\<open>{pageContent, metadata, id}\<close>. The documents the server builds have no id; the
  documents a query returns carry the id of their point.\<close>

record document =
  pageContent :: string
  metadata_d :: json
  id_d :: "string option"

text \<open>The vector store holds named collections of points. A collection fixes the length
  of its vectors and its distance when it is created. Only the length of a vector is
  inspected in this development; its components are abstracted as reals.\<close>

type_synonym vector = "real list"

record point =
  id_p :: string
  vector_p :: vector
  content_p :: string
  metadata_p :: json

record collection =
  size_c :: nat
  distance_c :: string
  points_c :: "point list"

text \<open>The argument \<^verbatim>\<open>{vectors: {size, distance}}\<close> of \<^verbatim>\<open>createCollection\<close>.\<close>

record vectorsConfig =
  size_v :: nat
  distance_v :: string

text \<open>A thrown \<^verbatim>\<open>Error\<close> with its message.\<close>

datatype error = Error string

record response =
  status :: nat
  body :: json

text \<open>
  The state a request runs in: the registry, the collections of the vector store, the
  faults of the store's network (the k-th request to the store from now on fails iff
  the k-th flag is set; no flag left means no fault), and the requests received so far by
  the generation service (system prompt, user message).
\<close>

record world =
  globalSourcesContext :: "sourceInfo list"
  collections :: "string \<rightharpoonup> collection"
  store_faults :: "bool list"
  completions :: "(string \<times> string) list"

text \<open>
  What a request reads from outside the program: the process environment, the clock
  (\<^verbatim>\<open>Date.now()\<close>, and \<^verbatim>\<open>new Date().toISOString()\<close> in the handler and in the
  registry update), \<^verbatim>\<open>Math.random().toString(36)\<close>, and the external collaborators:
  the embedding service, the similarity ranking of the store, the generation service, the
  PDF and web page loaders, the file system, and the identifiers the store client draws
  for new points (\<open>uuid e k\<close> for the k-th document of a write).
\<close>

record env =
  OPENAI_API_KEY :: "string option"
  qdrantUrl :: string
  date_now :: nat
  math_random :: string
  iso_request :: string
  iso_update :: string
  embed :: "string \<Rightarrow> error + vector"
  rank :: "vector \<Rightarrow> point list \<Rightarrow> point list"
  generate :: "string \<Rightarrow> string \<Rightarrow> error + string"
  pdf_load :: "string \<Rightarrow> error + document list"
  web_load :: "string \<Rightarrow> error + document list"
  unlinkSync :: "string \<Rightarrow> error option"
  uuid :: "nat \<Rightarrow> string"

definition collectionName :: string where
  "collectionName = ''personal-notebooklm''"

text \<open>The README of the optimized server: \<^verbatim>\<open>Model: OpenAI text-embedding-3-large
  (3072 dimensions)\<close>.\<close>

definition embedding_dimensions :: nat where
  "embedding_dimensions = 3072"

section \<open>Awaited calls: state passing with exceptions\<close>

type_synonym 'a io = "world \<Rightarrow> (error + 'a) \<times> world"

definition io_return :: "'a \<Rightarrow> 'a io" where
  "io_return x w = (Inr x, w)"

definition io_throw :: "error \<Rightarrow> 'a io" where
  "io_throw e w = (Inl e, w)"

definition io_lift :: "error + 'a \<Rightarrow> 'a io" where
  "io_lift r w = (r, w)"

definition io_bind :: "'a io \<Rightarrow> ('a \<Rightarrow> 'b io) \<Rightarrow> 'b io" where
  "io_bind m f w = (case m w of (Inl e, w') \<Rightarrow> (Inl e, w') | (Inr x, w') \<Rightarrow> f x w')"

definition io_catch :: "'a io \<Rightarrow> (error \<Rightarrow> 'a io) \<Rightarrow> 'a io" where
  "io_catch m h w = (case m w of (Inl e, w') \<Rightarrow> h e w' | (Inr x, w') \<Rightarrow> (Inr x, w'))"

definition io_modify :: "(world \<Rightarrow> world) \<Rightarrow> unit io" where
  "io_modify f w = (Inr (), f w)"

section \<open>The vector store at its interface\<close>

text \<open>
  The store and its client library are external collaborators. They are modelled at the
  interface the server uses: every call is one request, which fails with a network error
  when the store cannot be reached; reading or writing a collection that does not exist
  fails; creating a collection that exists fails; and a collection accepts only vectors
  of the length it was created with.
\<close>

definition request :: "unit io" where
  "request w =
     (case store_faults w of
        [] \<Rightarrow> (Inr (), w)
      | f # fs \<Rightarrow>
          (if f then Inl (Error ''fetch failed'') else Inr (), w\<lparr>store_faults := fs\<rparr>))"

definition getCollections :: "(string \<rightharpoonup> collection) io" where
  "getCollections = io_bind request (\<lambda>_ w. (Inr (collections w), w))"

definition getCollection :: "string \<Rightarrow> collection io" where
  "getCollection name =
     io_bind request (\<lambda>_ w.
       case collections w name of
         None \<Rightarrow> (Inl (Error ''Not Found''), w)
       | Some c \<Rightarrow> (Inr c, w))"

definition createCollection :: "string \<Rightarrow> vectorsConfig \<Rightarrow> unit io" where
  "createCollection name cfg =
     io_bind request (\<lambda>_ w.
       case collections w name of
         Some c \<Rightarrow> (Inl (Error ''Conflict''), w)
       | None \<Rightarrow>
           (Inr (),
            w\<lparr>collections := (collections w)
                 (name \<mapsto> \<lparr>size_c = size_v cfg, distance_c = distance_v cfg, points_c = []\<rparr>)\<rparr>))"

definition deleteCollection :: "string \<Rightarrow> unit io" where
  "deleteCollection name =
     io_bind request (\<lambda>_ w. (Inr (), w\<lparr>collections := (collections w)(name := None)\<rparr>))"

definition upsert :: "string \<Rightarrow> point list \<Rightarrow> unit io" where
  "upsert name ps =
     io_bind request (\<lambda>_ w.
       case collections w name of
         None \<Rightarrow> (Inl (Error ''Not Found''), w)
       | Some c \<Rightarrow>
           if list_all (\<lambda>p. length (vector_p p) = size_c c) ps
           then (Inr (),
                 w\<lparr>collections := (collections w)(name \<mapsto> c\<lparr>points_c := points_c c @ ps\<rparr>)\<rparr>)
           else (Inl (Error ''Bad Request''), w))"

definition search :: "env \<Rightarrow> string \<Rightarrow> vector \<Rightarrow> nat \<Rightarrow> point list io" where
  "search e name v k =
     io_bind request (\<lambda>_ w.
       case collections w name of
         None \<Rightarrow> (Inl (Error ''Not Found''), w)
       | Some c \<Rightarrow>
           if length v = size_c c
           then (Inr (take k (rank e v (points_c c))), w)
           else (Inl (Error ''Bad Request''), w))"

text \<open>The vector store class of the client library: \<^verbatim>\<open>embedDocuments\<close>,
  its own \<^verbatim>\<open>ensureCollection\<close> (create the collection when the store does not list it,
  sized by the given configuration or else by the embedding of a probe text),
  \<^verbatim>\<open>fromDocuments\<close> (no request at all for an empty list of documents; a point
  takes the id of its document, or a new one), \<^verbatim>\<open>fromExistingCollection\<close> and the
  retriever \<^verbatim>\<open>asRetriever({k}).invoke(query)\<close>, which embeds the query, calls the
  class's \<^verbatim>\<open>ensureCollection\<close> and then searches.\<close>

fun embedDocuments :: "env \<Rightarrow> string list \<Rightarrow> error + vector list" where
  "embedDocuments e [] = Inr []"
| "embedDocuments e (t # ts) =
     (case embed e t of
        Inl err \<Rightarrow> Inl err
      | Inr v \<Rightarrow> (case embedDocuments e ts of Inl err \<Rightarrow> Inl err | Inr vs \<Rightarrow> Inr (v # vs)))"

definition vs_ensureCollection :: "env \<Rightarrow> vectorsConfig option \<Rightarrow> unit io" where
  "vs_ensureCollection e cfg =
     io_bind getCollections (\<lambda>cs.
       if cs collectionName \<noteq> None then io_return ()
       else (case cfg of
               Some c \<Rightarrow> createCollection collectionName c
             | None \<Rightarrow>
                 io_bind (io_lift (embed e ''test'')) (\<lambda>v.
                   createCollection collectionName
                     \<lparr>size_v = length v, distance_v = ''Cosine''\<rparr>)))"

definition point_of :: "env \<Rightarrow> nat \<times> vector \<times> document \<Rightarrow> point" where
  "point_of e kvd =
     (case kvd of (k, v, d) \<Rightarrow>
        \<lparr>id_p = (case id_d d of Some i \<Rightarrow> i | None \<Rightarrow> uuid e k),
         vector_p = v, content_p = pageContent d, metadata_p = metadata_d d\<rparr>)"

definition fromDocuments :: "env \<Rightarrow> document list \<Rightarrow> vectorsConfig option \<Rightarrow> unit io" where
  "fromDocuments e docs cfg =
     io_bind (io_lift (embedDocuments e (map pageContent docs))) (\<lambda>vs.
       if vs = [] then io_return ()
       else io_bind (vs_ensureCollection e cfg) (\<lambda>_.
              upsert collectionName
                (map (point_of e) (zip [0..<length vs] (zip vs docs)))))"

definition fromExistingCollection :: "env \<Rightarrow> unit io" where
  "fromExistingCollection e = vs_ensureCollection e None"

definition document_of :: "point \<Rightarrow> document" where
  "document_of p =
     \<lparr>pageContent = content_p p, metadata_d = metadata_p p, id_d = Some (id_p p)\<rparr>"

definition retrieve :: "env \<Rightarrow> nat \<Rightarrow> string \<Rightarrow> document list io" where
  "retrieve e k query =
     io_bind (io_lift (embed e query)) (\<lambda>v.
       io_bind (vs_ensureCollection e None) (\<lambda>_.
       io_bind (search e collectionName v k) (\<lambda>ps. io_return (map document_of ps))))"

section \<open>The server (index.js)\<close>

definition opt_field :: "string \<Rightarrow> string option \<Rightarrow> (string \<times> json) list" where
  "opt_field k v = (case v of None \<Rightarrow> [] | Some s \<Rightarrow> [(k, JStr s)])"

definition json_of_metadata :: "metadata \<Rightarrow> json" where
  "json_of_metadata md =
     JObj ([(''type'', JStr (type_m md)), (''title'', JStr (title_m md))] @
           opt_field ''url'' (url_m md) @ opt_field ''source'' (source_m md) @
           opt_field ''timestamp'' (timestamp_m md))"

definition json_of_sourceInfo :: "sourceInfo \<Rightarrow> json" where
  "json_of_sourceInfo s =
     JObj ([(''id'', JStr (id_s s)), (''type'', JStr (type_s s)), (''title'', JStr (title_s s)),
            (''content'', JStr (content_s s)), (''timestamp'', JStr (timestamp_s s))] @
           opt_field ''url'' (url_s s))"

text \<open>The own keys of a document, in the order \<^verbatim>\<open>JSON.stringify\<close> prints them; a key
  whose value is \<^verbatim>\<open>undefined\<close> is left out.\<close>

definition json_of_document :: "document \<Rightarrow> json" where
  "json_of_document d =
     JObj ([(''pageContent'', JStr (pageContent d)), (''metadata'', metadata_d d)] @
           opt_field ''id'' (id_d d))"

definition respond :: "nat \<Rightarrow> json \<Rightarrow> response" where
  "respond code b = \<lparr>status = code, body = b\<rparr>"

definition error_body :: "string \<Rightarrow> json" where
  "error_body m = JObj [(''error'', JStr m)]"

definition message_body :: "string \<Rightarrow> json" where
  "message_body m = JObj [(''message'', JStr m)]"

text \<open>The object literal \<^verbatim>\<open>sourceInfo\<close> of \<^verbatim>\<open>updateGlobalContext\<close> (index.js) and of
  \<^verbatim>\<open>storeEmbeddings\<close> (optimized server): the id is
  \<^verbatim>\<open>`source_${Date.now()}_${Math.random().toString(36).substr(2, 9)}`\<close>, the content
  is \<^verbatim>\<open>content.substring(0, 200) + "..."\<close>.\<close>

definition sourceInfo_of :: "env \<Rightarrow> metadata \<Rightarrow> string \<Rightarrow> sourceInfo" where
  "sourceInfo_of e md content =
     \<lparr>id_s = ''source_'' @ decimal (date_now e) @ ''_'' @ substr 2 9 (math_random e),
      type_s = type_m md,
      title_s = title_m md,
      content_s = substring 0 200 content @ ''...'',
      timestamp_s = (if truthy (timestamp_m md) then the (timestamp_m md) else iso_update e),
      url_s = (if truthy (url_m md) then url_m md else None)\<rparr>"

definition updateGlobalContext :: "env \<Rightarrow> metadata \<Rightarrow> string \<Rightarrow> world \<Rightarrow> world" where
  "updateGlobalContext e md content w =
     w\<lparr>globalSourcesContext := globalSourcesContext w @ [sourceInfo_of e md content]\<rparr>"

text \<open>The \<^verbatim>\<open>catch\<close> block of \<^verbatim>\<open>createAndStoreEmbeddings\<close>.\<close>

definition rethrow_connection :: "env \<Rightarrow> error \<Rightarrow> error" where
  "rethrow_connection e err =
     (case err of Error m \<Rightarrow>
        if includes_str m ''fetch failed'' \<or> includes_str m ''ENOTFOUND''
        then Error (''Cannot connect to Qdrant at '' @ qdrantUrl e @
                    ''. Please check if the database is running and accessible.'')
        else err)"

definition createAndStoreEmbeddings :: "env \<Rightarrow> string \<Rightarrow> metadata \<Rightarrow> unit io" where
  "createAndStoreEmbeddings e text md =
     (if \<not> truthy (OPENAI_API_KEY e)
      then io_throw (Error ''OPENAI_API_KEY environment variable is not set'')
      else io_catch
             (io_bind getCollections (\<lambda>_.
              io_bind (fromDocuments e [\<lparr>pageContent = text, metadata_d = json_of_metadata md, id_d = None\<rparr>] None) (\<lambda>_.
              io_modify (updateGlobalContext e md text))))
             (\<lambda>err. io_throw (rethrow_connection e err)))"

definition summary_line :: "sourceInfo \<Rightarrow> string" where
  "summary_line s =
     ''- '' @ toUpperCase (type_s s) @ '': '' @ title_s s @ '' ('' @ timestamp_s s @ '')''"

definition prompt_head :: string where
  "prompt_head =
     nl @ ''    You are an AI assistant who helps resolve user queries based on the context available from their personal knowledge base.'' @
     nl @ nl @ ''    AVAILABLE SOURCES IN KNOWLEDGE BASE:'' @ nl @ ''    ''"

definition prompt_mid :: string where
  "prompt_mid = nl @ nl @ ''    RELEVANT CONTEXT FOR THIS QUERY:'' @ nl @ ''    ''"

definition prompt_tail :: string where
  "prompt_tail =
     nl @ nl @ ''    INSTRUCTIONS:'' @
     nl @ ''    1. Only answer based on the available context from the sources above'' @
     nl @ ''    2. If the context doesn't contain enough information, say so'' @
     nl @ ''    3. Reference specific sources when possible'' @
     nl @ ''    4. Be helpful and accurate based on the provided information'' @
     nl @ ''    5. If asked about sources not in the context, inform the user'' @
     nl @ ''  ''"

definition generateSystemPrompt :: "sourceInfo list \<Rightarrow> document list \<Rightarrow> string" where
  "generateSystemPrompt sources relevantChunks =
     (let sourcesSummary = join nl (map summary_line sources)
      in prompt_head @ sourcesSummary @ prompt_mid @
         stringify (JArr (map json_of_document relevantChunks)) @ prompt_tail)"

text \<open>\<^verbatim>\<open>client.chat.completions.create\<close>: the generation service receives the two
  messages and answers with \<^verbatim>\<open>choices[0].message.content\<close> or fails.\<close>

definition completions_create :: "env \<Rightarrow> string \<Rightarrow> string \<Rightarrow> string io" where
  "completions_create e system user w =
     (generate e system user, w\<lparr>completions := completions w @ [(system, user)]\<rparr>)"

record chatResult =
  text_r :: string
  sourceDocuments :: "document list"

definition chat :: "env \<Rightarrow> string \<Rightarrow> chatResult io" where
  "chat e userInput =
     io_catch
       (io_bind (fromExistingCollection e) (\<lambda>_.
        io_bind (retrieve e 5 userInput) (\<lambda>relevantChunk.
        io_bind (\<lambda>w. (Inr (generateSystemPrompt (globalSourcesContext w) relevantChunk), w)) (\<lambda>prompt.
        io_bind (completions_create e prompt userInput) (\<lambda>answer.
        io_return \<lparr>text_r = answer, sourceDocuments = relevantChunk\<rparr>)))))
       io_throw"

text \<open>\<^verbatim>\<open>GET /api/sources-context\<close>.\<close>

definition get_sources_context :: "world \<Rightarrow> response" where
  "get_sources_context w =
     respond 200
       (JObj [(''totalSources'', JNum (int (length (globalSourcesContext w)))),
              (''sources'', JArr (map json_of_sourceInfo (globalSourcesContext w)))])"

text \<open>\<^verbatim>\<open>DELETE /api/sources/clear\<close>: the registry is emptied first; the inner
  \<^verbatim>\<open>try\<close> deletes the collection and recreates it with
  \<^verbatim>\<open>{size: 1536, distance: "Cosine"}\<close>, and its \<^verbatim>\<open>catch\<close> only logs.\<close>

definition delete_sources_clear :: "world \<Rightarrow> response \<times> world" where
  "delete_sources_clear w =
     (case io_bind (io_modify (\<lambda>w. w\<lparr>globalSourcesContext := []\<rparr>)) (\<lambda>_.
             io_catch
               (io_bind (deleteCollection collectionName) (\<lambda>_.
                createCollection collectionName \<lparr>size_v = 1536, distance_v = ''Cosine''\<rparr>))
               (\<lambda>err. io_return ())) w
      of (Inl (Error m), w') \<Rightarrow> (respond 500 (error_body m), w')
       | (Inr _, w') \<Rightarrow>
           (respond 200
              (JObj [(''message'', JStr ''All sources and embeddings cleared successfully''),
                     (''totalSources'', JNum 0)]), w'))"

text \<open>\<^verbatim>\<open>DELETE /api/sources/:id\<close>.\<close>

definition delete_source :: "string \<Rightarrow> world \<Rightarrow> response \<times> world" where
  "delete_source ident w =
     (case findIndex (\<lambda>source. id_s source = ident) (globalSourcesContext w) of
        None \<Rightarrow> (respond 404 (error_body ''Source not found''), w)
      | Some sourceIndex \<Rightarrow>
          (let (removed, rest) = splice1 sourceIndex (globalSourcesContext w);
               w' = w\<lparr>globalSourcesContext := rest\<rparr>
           in (respond 200
                 (JObj ([(''message'', JStr ''Source removed successfully'')] @
                        (case removed of [] \<Rightarrow> [] | r # _ \<Rightarrow> [(''removedSource'', json_of_sourceInfo r)]) @
                        [(''totalSources'', JNum (int (length (globalSourcesContext w'))))])),
               w')))"

text \<open>\<^verbatim>\<open>req.file\<close> of an upload.\<close>

record upload =
  originalname :: string
  path_u :: string

text \<open>\<^verbatim>\<open>POST /api/embed-pdf\<close>, \<^verbatim>\<open>POST /api/embed-text\<close> and
  \<^verbatim>\<open>POST /api/embed-url\<close>. A body field is \<open>None\<close> when the request does not have it.\<close>

definition finish :: "string \<Rightarrow> (error + unit) \<times> world \<Rightarrow> response \<times> world" where
  "finish ok r =
     (case r of
        (Inl (Error m), w') \<Rightarrow> (respond 500 (error_body m), w')
      | (Inr _, w') \<Rightarrow> (respond 200 (message_body ok), w'))"

definition post_embed_pdf :: "env \<Rightarrow> upload option \<Rightarrow> world \<Rightarrow> response \<times> world" where
  "post_embed_pdf e file w =
     (case file of
        None \<Rightarrow> (respond 400 (error_body ''No PDF uploaded''), w)
      | Some f \<Rightarrow>
          finish ''PDF embedded successfully!''
            (io_bind (io_lift (pdf_load e (path_u f))) (\<lambda>docs.
               if \<not> truthy (OPENAI_API_KEY e)
               then io_throw (Error ''OPENAI_API_KEY environment variable is not set'')
               else io_bind (fromDocuments e docs None) (\<lambda>_.
                    io_bind (io_modify (updateGlobalContext e
                               \<lparr>type_m = ''pdf'', title_m = originalname f, url_m = None,
                                source_m = None, timestamp_m = Some (iso_request e)\<rparr>
                               (join (nl @ nl) (map pageContent docs)))) (\<lambda>_.
                    io_lift (case unlinkSync e (path_u f) of
                               Some err \<Rightarrow> Inl err | None \<Rightarrow> Inr ())))) w))"

definition post_embed_text :: "env \<Rightarrow> string option \<Rightarrow> string option \<Rightarrow> world \<Rightarrow> response \<times> world" where
  "post_embed_text e title content w =
     (if \<not> truthy title \<or> \<not> truthy content
      then (respond 400 (error_body ''Title and content are required''), w)
      else finish ''Text embedded successfully!''
             (createAndStoreEmbeddings e (the content)
                \<lparr>type_m = ''text'', title_m = the title, url_m = None,
                 source_m = Some ''user_input'', timestamp_m = Some (iso_request e)\<rparr> w))"

definition post_embed_url :: "env \<Rightarrow> string option \<Rightarrow> string option \<Rightarrow> world \<Rightarrow> response \<times> world" where
  "post_embed_url e title url w =
     (if \<not> truthy title \<or> \<not> truthy url
      then (respond 400 (error_body ''Title and URL are required''), w)
      else finish ''URL embedded successfully!''
             (io_bind (io_lift (web_load e (the url))) (\<lambda>docs.
                if docs = [] then io_throw (Error ''Could not extract content from URL'')
                else createAndStoreEmbeddings e (join (nl @ nl) (map pageContent docs))
                       \<lparr>type_m = ''url'', title_m = the title, url_m = url,
                        source_m = Some ''web_scraping'', timestamp_m = Some (iso_request e)\<rparr>) w))"

section \<open>The optimized server\<close>

text \<open>\<^verbatim>\<open>ensureCollection\<close>: \<^verbatim>\<open>getCollection\<close>, and on any error
  \<^verbatim>\<open>createCollection\<close> with \<^verbatim>\<open>{size: 3072, distance: "Cosine"}\<close>.\<close>

definition ensureCollection :: "unit io" where
  "ensureCollection =
     io_catch (io_bind (getCollection collectionName) (\<lambda>_. io_return ()))
       (\<lambda>err. createCollection collectionName \<lparr>size_v = 3072, distance_v = ''Cosine''\<rparr>)"

definition storeEmbeddings :: "env \<Rightarrow> string \<Rightarrow> metadata \<Rightarrow> unit io" where
  "storeEmbeddings e text md =
     (if \<not> truthy (OPENAI_API_KEY e)
      then io_throw (Error ''OPENAI_API_KEY environment variable is not set'')
      else io_bind (fromDocuments e [\<lparr>pageContent = text, metadata_d = json_of_metadata md, id_d = None\<rparr>]
                      (Some \<lparr>size_v = 3072, distance_v = ''Cosine''\<rparr>)) (\<lambda>_.
           io_modify (\<lambda>w. w\<lparr>globalSourcesContext :=
                               globalSourcesContext w @ [sourceInfo_of e md text]\<rparr>)))"

definition delete_sources_clear_opt :: "world \<Rightarrow> response \<times> world" where
  "delete_sources_clear_opt w =
     (case io_bind (io_modify (\<lambda>w. w\<lparr>globalSourcesContext := []\<rparr>)) (\<lambda>_.
           io_bind (deleteCollection collectionName) (\<lambda>_. ensureCollection)) w
      of (Inl (Error m), w') \<Rightarrow> (respond 500 (error_body m), w')
       | (Inr _, w') \<Rightarrow>
           (respond 200
              (JObj [(''message'', JStr ''All sources cleared successfully''),
                     (''totalSources'', JNum 0)]), w'))"

definition delete_source_opt :: "string \<Rightarrow> world \<Rightarrow> response \<times> world" where
  "delete_source_opt ident w =
     (case findIndex (\<lambda>source. id_s source = ident) (globalSourcesContext w) of
        None \<Rightarrow> (respond 404 (error_body ''Source not found''), w)
      | Some sourceIndex \<Rightarrow>
          (let w' = w\<lparr>globalSourcesContext := snd (splice1 sourceIndex (globalSourcesContext w))\<rparr>
           in (respond 200
                 (JObj [(''message'', JStr ''Source removed successfully''),
                        (''totalSources'', JNum (int (length (globalSourcesContext w'))))]),
               w')))"

section \<open>Properties of awaited calls\<close>

text \<open>A call touches the store only when no run of it changes
  \<^verbatim>\<open>globalSourcesContext\<close> or the requests received by the generation service.\<close>

definition store_only :: "'a io \<Rightarrow> bool" where
  "store_only m =
     (\<forall>w. globalSourcesContext (snd (m w)) = globalSourcesContext w \<and>
          completions (snd (m w)) = completions w)"

text \<open>The k-th request to the store from now on hits a network fault.\<close>

definition fault_at :: "nat \<Rightarrow> world \<Rightarrow> bool" where
  "fault_at k w = (k < length (store_faults w) \<and> store_faults w ! k)"

text \<open>A character that a quoted JSON string shows as it is.\<close>

definition plain_char :: "char \<Rightarrow> bool" where
  "plain_char c = (32 \<le> (of_char c :: nat) \<and> c \<noteq> CHR 0x22 \<and> c \<noteq> CHR 0x5C)"

definition dq :: string where
  "dq = [CHR 0x22]"

text \<open>The text of one retrieved fragment inside the array that
  \<^verbatim>\<open>JSON.stringify(relevantChunks, null, 2)\<close> prints: the stored text, the stored
  metadata and the id of the point.\<close>

definition fragment_text :: "point \<Rightarrow> string" where
  "fragment_text p =
     ''  {'' @ nl @
     ''    '' @ dq @ ''pageContent'' @ dq @ '': '' @ quote (content_p p) @ '','' @ nl @
     ''    '' @ dq @ ''metadata'' @ dq @ '': '' @ ser 4 (metadata_p p) @ '','' @ nl @
     ''    '' @ dq @ ''id'' @ dq @ '': '' @ quote (id_p p) @ nl @
     ''  }''"

section \<open>Example inputs\<close>

definition example_env :: env where
  "example_env =
     \<lparr>OPENAI_API_KEY = Some ''sk-test'',
      qdrantUrl = ''http://localhost'',
      date_now = 1700000000000,
      math_random = ''0.4fzyo82mvyr'',
      iso_request = ''2023-11-14T22:13:20.000Z'',
      iso_update = ''2023-11-14T22:13:20.001Z'',
      embed = (\<lambda>t. Inr (replicate 3072 0)),
      rank = (\<lambda>v ps. ps),
      generate = (\<lambda>system user. Inr ''The sky is blue.''),
      pdf_load = (\<lambda>p. Inr [\<lparr>pageContent = ''page one'', metadata_d = JObj [], id_d = None\<rparr>]),
      web_load = (\<lambda>u. Inr [\<lparr>pageContent = ''a web page'', metadata_d = JObj [], id_d = None\<rparr>]),
      unlinkSync = (\<lambda>p. None),
      uuid = (\<lambda>k. ''00000000-0000-4000-8000-00000000000'' @ [digit_char k])\<rparr>"

definition example_metadata :: metadata where
  "example_metadata =
     \<lparr>type_m = ''text'', title_m = ''Note1'', url_m = None,
      source_m = Some ''user_input'', timestamp_m = Some ''2023-11-14T22:13:20.000Z''\<rparr>"

definition example_source :: "string \<Rightarrow> string \<Rightarrow> sourceInfo" where
  "example_source ident t =
     \<lparr>id_s = ident, type_s = ''text'', title_s = t, content_s = ''The sky is blue....'',
      timestamp_s = ''2023-11-14T22:13:20.000Z'', url_s = None\<rparr>"

definition example_point :: "string \<Rightarrow> point" where
  "example_point t =
     \<lparr>id_p = ''id-'' @ t, vector_p = replicate 3072 0, content_p = t,
      metadata_p = JObj [(''type'', JStr ''text''), (''title'', JStr ''Note1'')]\<rparr>"

text \<open>A store that holds the collection as the optimized server creates it, with the
  given points, and a registry with the given entries.\<close>

definition example_world :: "sourceInfo list \<Rightarrow> point list \<Rightarrow> bool list \<Rightarrow> world" where
  "example_world sources ps faults =
     \<lparr>globalSourcesContext = sources,
      collections = [collectionName \<mapsto> \<lparr>size_c = 3072, distance_c = ''Cosine'', points_c = ps\<rparr>],
      store_faults = faults,
      completions = []\<rparr>"

text \<open>A text of 203 characters that ends in three dots.\<close>

definition text_203 :: string where
  "text_203 = replicate 200 CHR ''a'' @ ''...''"

text \<open>Six points, one more than a query retrieves.\<close>

definition example_points :: "point list" where
  "example_points = map example_point [''one'', ''two'', ''three'', ''four'', ''five'', ''six'']"

section \<open>Calls that touch the store only\<close>

lemma store_only_registry:
  "store_only m \<Longrightarrow> m w = (r, w') \<Longrightarrow> globalSourcesContext w' = globalSourcesContext w"
  unfolding store_only_def by (metis snd_conv)

lemma store_only_completions:
  "store_only m \<Longrightarrow> m w = (r, w') \<Longrightarrow> completions w' = completions w"
  unfolding store_only_def by (metis snd_conv)

lemma store_only_return [simp]: "store_only (io_return x)"
  by (simp add: store_only_def io_return_def)

lemma store_only_throw [simp]: "store_only (io_throw x)"
  by (simp add: store_only_def io_throw_def)

lemma store_only_lift [simp]: "store_only (io_lift x)"
  by (simp add: store_only_def io_lift_def)

lemma store_only_bind:
  assumes m: "store_only m" and f: "\<And>x. store_only (f x)"
  shows "store_only (io_bind m f)"
  unfolding store_only_def
proof (intro allI)
  fix w
  obtain r w1 where mw: "m w = (r, w1)" by (cases "m w")
  note r1 = store_only_registry[OF m mw] store_only_completions[OF m mw]
  show "globalSourcesContext (snd (io_bind m f w)) = globalSourcesContext w \<and>
        completions (snd (io_bind m f w)) = completions w"
  proof (cases r)
    case (Inl err)
    with mw r1 show ?thesis by (simp add: io_bind_def)
  next
    case (Inr x)
    obtain r2 w2 where fw: "f x w1 = (r2, w2)" by (cases "f x w1")
    from store_only_registry[OF f fw] store_only_completions[OF f fw] Inr mw r1 fw
    show ?thesis by (simp add: io_bind_def)
  qed
qed

lemma store_only_catch:
  assumes m: "store_only m" and h: "\<And>x. store_only (h x)"
  shows "store_only (io_catch m h)"
  unfolding store_only_def
proof (intro allI)
  fix w
  obtain r w1 where mw: "m w = (r, w1)" by (cases "m w")
  note r1 = store_only_registry[OF m mw] store_only_completions[OF m mw]
  show "globalSourcesContext (snd (io_catch m h w)) = globalSourcesContext w \<and>
        completions (snd (io_catch m h w)) = completions w"
  proof (cases r)
    case (Inr x)
    with mw r1 show ?thesis by (simp add: io_catch_def)
  next
    case (Inl err)
    obtain r2 w2 where hw: "h err w1 = (r2, w2)" by (cases "h err w1")
    from store_only_registry[OF h hw] store_only_completions[OF h hw] Inl mw r1 hw
    show ?thesis by (simp add: io_catch_def)
  qed
qed

lemma store_only_request [simp]: "store_only request"
  by (simp add: store_only_def request_def split: list.splits)

lemma store_only_getCollections [simp]: "store_only getCollections"
  unfolding getCollections_def
  by (rule store_only_bind[OF store_only_request]) (simp add: store_only_def)

lemma store_only_getCollection [simp]: "store_only (getCollection n)"
  unfolding getCollection_def
  by (rule store_only_bind[OF store_only_request]) (simp add: store_only_def split: option.splits)

lemma store_only_createCollection [simp]: "store_only (createCollection n c)"
  unfolding createCollection_def
  by (rule store_only_bind[OF store_only_request]) (simp add: store_only_def split: option.splits)

lemma store_only_deleteCollection [simp]: "store_only (deleteCollection n)"
  unfolding deleteCollection_def
  by (rule store_only_bind[OF store_only_request]) (simp add: store_only_def split: option.splits)

lemma store_only_upsert [simp]: "store_only (upsert n ps)"
  unfolding upsert_def
  by (rule store_only_bind[OF store_only_request]) (simp add: store_only_def split: option.splits)

lemma store_only_search [simp]: "store_only (search e n v k)"
  unfolding search_def
  by (rule store_only_bind[OF store_only_request]) (simp add: store_only_def split: option.splits)

lemma store_only_vs_ensureCollection [simp]: "store_only (vs_ensureCollection e cfg)"
  unfolding vs_ensureCollection_def
  by (intro store_only_bind) (auto split: option.splits intro!: store_only_bind)

lemma store_only_fromDocuments [simp]: "store_only (fromDocuments e docs cfg)"
  unfolding fromDocuments_def
  by (intro store_only_bind) (auto intro!: store_only_bind)

lemma store_only_ensureCollection [simp]: "store_only ensureCollection"
  unfolding ensureCollection_def
  by (intro store_only_catch store_only_bind) simp_all

lemma store_only_retrieve [simp]: "store_only (retrieve e k query)"
  unfolding retrieve_def
  by (intro store_only_bind) simp_all

section \<open>Identifiers of registry entries; the excerpt\<close>

lemma digit_char_value: "d < 10 \<Longrightarrow> (of_char (digit_char d) :: nat) - 48 = d"
  by (simp add: digit_char_def)

lemma digits_value_decimal: "digits_value (decimal n) = n"
proof (induction n rule: decimal.induct)
  case (1 n)
  show ?case
  proof (cases "n < 10")
    case True
    then show ?thesis
      by (subst decimal.simps) (simp add: digits_value_def digit_char_value)
  next
    case False
    with 1 have ih: "digits_value (decimal (n div 10)) = n div 10" by simp
    have "n mod 10 < 10" by simp
    then have d: "(of_char (digit_char (n mod 10)) :: nat) - 48 = n mod 10"
      by (rule digit_char_value)
    from False have "decimal n = decimal (n div 10) @ [digit_char (n mod 10)]"
      by (subst decimal.simps) simp
    then have "digits_value (decimal n) = 10 * digits_value (decimal (n div 10)) + n mod 10"
      using d by (simp add: digits_value_def)
    with ih show ?thesis by simp
  qed
qed

lemma decimal_inj: "decimal m = decimal n \<Longrightarrow> m = n"
  by (metis digits_value_decimal)

lemma digit_char_not_underscore: "d < 10 \<Longrightarrow> digit_char d \<noteq> CHR ''_''"
proof
  assume d: "d < 10" and "digit_char d = CHR ''_''"
  then have "(of_char (digit_char d) :: nat) = of_char CHR ''_''" by simp
  with d show False by (simp add: digit_char_def)
qed

lemma decimal_no_underscore: "CHR ''_'' \<notin> set (decimal n)"
proof (induction n rule: decimal.induct)
  case (1 n)
  show ?case
  proof (cases "n < 10")
    case True
    then show ?thesis
      using digit_char_not_underscore[of n] by (subst decimal.simps) auto
  next
    case False
    have "n mod 10 < 10" by simp
    then have "digit_char (n mod 10) \<noteq> CHR ''_''" by (rule digit_char_not_underscore)
    with False 1 show ?thesis
      by (subst decimal.simps) auto
  qed
qed

lemma split_at_first:
  "c \<notin> set xs \<Longrightarrow> c \<notin> set xs' \<Longrightarrow> xs @ c # ys = xs' @ c # ys' \<Longrightarrow> xs = xs' \<and> ys = ys'"
proof (induction xs arbitrary: xs')
  case Nil
  then show ?case by (cases xs') auto
next
  case (Cons a xs)
  then show ?case by (cases xs') auto
qed

lemma source_id_eq_iff:
  "(''source_'' @ decimal a @ ''_'' @ x = ''source_'' @ decimal b @ ''_'' @ y) \<longleftrightarrow> (a = b \<and> x = y)"
proof -
  have "(decimal a @ CHR ''_'' # x = decimal b @ CHR ''_'' # y) \<longleftrightarrow> (decimal a = decimal b \<and> x = y)"
    using split_at_first[OF decimal_no_underscore decimal_no_underscore] by blast
  then show ?thesis using decimal_inj by auto
qed

lemma substring_0: "substring 0 n s = take n s"
  by (simp add: substring_def Let_def min_def)

lemma excerpt_eq: "content_s (sourceInfo_of e md t) = take 200 t @ ''...''"
  by (simp add: sourceInfo_of_def substring_0)

lemma excerpt_length: "length (content_s (sourceInfo_of e md t)) = min 200 (length t) + 3"
  by (simp add: excerpt_eq min_def)

lemma excerpt_fixpoint:
  "content_s (sourceInfo_of e md t) = t \<longleftrightarrow> length t = 203 \<and> drop 200 t = ''...''"
proof
  assume eq: "content_s (sourceInfo_of e md t) = t"
  then have "length t = min 200 (length t) + 3" using excerpt_length by metis
  then have len: "length t = 203" by (simp add: min_def split: if_splits)
  from eq have "drop 200 (take 200 t @ ''...'') = drop 200 t" by (simp add: excerpt_eq)
  with len show "length t = 203 \<and> drop 200 t = ''...''" by simp
next
  assume a: "length t = 203 \<and> drop 200 t = ''...''"
  have "take 200 t @ drop 200 t = t" by (rule append_take_drop_id)
  with a show "content_s (sourceInfo_of e md t) = t" by (simp add: excerpt_eq)
qed

lemma take_min_length: "take (min n (length xs)) xs = take n xs"
  by (cases "n \<le> length xs") (simp_all add: min_def)

text \<open>
  C8, as the code has it: the id of an entry is made of the clock reading
  \<^verbatim>\<open>Date.now()\<close> and of the nine characters after \<^verbatim>\<open>0.\<close> of
  \<^verbatim>\<open>Math.random().toString(36)\<close>, and nothing compares it with the ids already in the
  registry. Two entries have the same id exactly when their ingestions read the same
  clock value and drew the same random suffix.
\<close>

theorem ids_equal_iff_same_stamp:
  "id_s (sourceInfo_of e1 md1 t1) = id_s (sourceInfo_of e2 md2 t2) \<longleftrightarrow>
     date_now e1 = date_now e2 \<and> substr 2 9 (math_random e1) = substr 2 9 (math_random e2)"
  unfolding sourceInfo_of_def using source_id_eq_iff by simp

theorem ids_equal_iff_same_stamp_witness:
  "id_s (sourceInfo_of example_env example_metadata ''first text'') \<noteq>
   id_s (sourceInfo_of (example_env\<lparr>date_now := 1700000000001\<rparr>) example_metadata ''first text'')"
  using ids_equal_iff_same_stamp[of example_env example_metadata "''first text''"
          "example_env\<lparr>date_now := 1700000000001\<rparr>" example_metadata "''first text''"]
  by (simp add: example_env_def)

text \<open>Two ingestions within one millisecond that draw the same random number give two
  different registry entries with one id.\<close>

theorem ids_collide_counterexample:
  "globalSourcesContext
     (updateGlobalContext example_env example_metadata ''second text''
       (updateGlobalContext example_env example_metadata ''first text'' (example_world [] [] []))) =
     [sourceInfo_of example_env example_metadata ''first text'',
      sourceInfo_of example_env example_metadata ''second text''] \<and>
   sourceInfo_of example_env example_metadata ''first text'' \<noteq>
     sourceInfo_of example_env example_metadata ''second text'' \<and>
   id_s (sourceInfo_of example_env example_metadata ''first text'') =
     id_s (sourceInfo_of example_env example_metadata ''second text'')"
  by (simp add: updateGlobalContext_def example_world_def sourceInfo_of_def substring_0)

section \<open>Removing a source\<close>








text \<open>
  C5: removing a source never touches the vector store: the collections, with every
  point of the removed source, are what they were, and no request is sent to the store.
\<close>

theorem remove_keeps_store:
  "collections (snd (delete_source ident w)) = collections w \<and>
   store_faults (snd (delete_source ident w)) = store_faults w \<and>
   collections (snd (delete_source_opt ident w)) = collections w \<and>
   store_faults (snd (delete_source_opt ident w)) = store_faults w"
  by (simp add: delete_source_opt_def delete_source_def splice1_def Let_def split: option.splits)

theorem remove_keeps_store_witness:
  "collections (snd (delete_source ''source_1_a'' (example_world [example_source ''source_1_a'' ''Note1''] [example_point ''The sky is blue.''] []))) collectionName =
     Some \<lparr>size_c = 3072, distance_c = ''Cosine'', points_c = [example_point ''The sky is blue.'']\<rparr> \<and>
   globalSourcesContext (snd (delete_source ''source_1_a'' (example_world [example_source ''source_1_a'' ''Note1''] [example_point ''The sky is blue.''] []))) = []"
  using remove_keeps_store[of "''source_1_a''" "example_world [example_source ''source_1_a'' ''Note1''] [example_point ''The sky is blue.''] []"]
  by (simp add: example_world_def example_source_def delete_source_def splice1_def)

section \<open>Ingestion and the registry\<close>

lemma createAndStoreEmbeddings_run:
  "(\<not> truthy (OPENAI_API_KEY e) \<and>
      createAndStoreEmbeddings e t md w =
        (Inl (Error ''OPENAI_API_KEY environment variable is not set''), w)) \<or>
   (truthy (OPENAI_API_KEY e) \<and>
      (\<exists>err w0. getCollections w = (Inl err, w0) \<and>
         createAndStoreEmbeddings e t md w = (Inl (rethrow_connection e err), w0))) \<or>
   (truthy (OPENAI_API_KEY e) \<and>
      (\<exists>cs w0 err w1. getCollections w = (Inr cs, w0) \<and>
         fromDocuments e [\<lparr>pageContent = t, metadata_d = json_of_metadata md, id_d = None\<rparr>] None w0 = (Inl err, w1) \<and>
         createAndStoreEmbeddings e t md w = (Inl (rethrow_connection e err), w1))) \<or>
   (truthy (OPENAI_API_KEY e) \<and>
      (\<exists>cs w0 w1. getCollections w = (Inr cs, w0) \<and>
         fromDocuments e [\<lparr>pageContent = t, metadata_d = json_of_metadata md, id_d = None\<rparr>] None w0 = (Inr (), w1) \<and>
         createAndStoreEmbeddings e t md w = (Inr (), updateGlobalContext e md t w1)))"
proof (cases "truthy (OPENAI_API_KEY e)")
  case False
  then show ?thesis by (simp add: createAndStoreEmbeddings_def io_throw_def)
next
  case key: True
  obtain r0 w0 where g: "getCollections w = (r0, w0)" by (cases "getCollections w")
  show ?thesis
  proof (cases r0)
    case (Inl err)
    with key g show ?thesis
      by (simp add: createAndStoreEmbeddings_def io_catch_def io_bind_def io_throw_def)
  next
    case (Inr cs)
    obtain r1 w1 where f:
      "fromDocuments e [\<lparr>pageContent = t, metadata_d = json_of_metadata md, id_d = None\<rparr>] None w0 = (r1, w1)"
      by (cases "fromDocuments e [\<lparr>pageContent = t, metadata_d = json_of_metadata md, id_d = None\<rparr>] None w0")
    show ?thesis
    proof (cases r1)
      case (Inl err)
      with key g Inr f show ?thesis
        by (simp add: createAndStoreEmbeddings_def io_catch_def io_bind_def io_throw_def)
    next
      case r1: (Inr u)
      with key g Inr f show ?thesis
        by (simp add: createAndStoreEmbeddings_def io_catch_def io_bind_def io_modify_def)
    qed
  qed
qed

lemma getCollections_registry: "getCollections w = (r, w0) \<Longrightarrow> globalSourcesContext w0 = globalSourcesContext w"
  by (rule store_only_registry[OF store_only_getCollections])

lemma fromDocuments_registry:
  "fromDocuments e docs cfg w0 = (r, w1) \<Longrightarrow> globalSourcesContext w1 = globalSourcesContext w0"
  by (rule store_only_registry[OF store_only_fromDocuments])

lemma createAndStoreEmbeddings_registry:
  "globalSourcesContext (snd (createAndStoreEmbeddings e t md w)) =
     (if isl (fst (createAndStoreEmbeddings e t md w)) then globalSourcesContext w
      else globalSourcesContext w @ [sourceInfo_of e md t])"
  using createAndStoreEmbeddings_run[of e t md w]
  apply (elim disjE conjE exE)
  subgoal by simp
  subgoal by (frule getCollections_registry) simp
  subgoal by (frule getCollections_registry, frule fromDocuments_registry) simp
  subgoal by (frule getCollections_registry, frule fromDocuments_registry)
             (simp add: updateGlobalContext_def)
  done

lemma createAndStoreEmbeddings_appends_after_store:
  "globalSourcesContext (snd (createAndStoreEmbeddings e t md w)) \<noteq> globalSourcesContext w \<Longrightarrow>
     truthy (OPENAI_API_KEY e) \<and>
     (\<exists>cs w0 w1. getCollections w = (Inr cs, w0) \<and>
        fromDocuments e [\<lparr>pageContent = t, metadata_d = json_of_metadata md, id_d = None\<rparr>] None w0 = (Inr (), w1) \<and>
        snd (createAndStoreEmbeddings e t md w) = updateGlobalContext e md t w1)"
  using createAndStoreEmbeddings_run[of e t md w]
  apply (elim disjE conjE exE)
  subgoal by simp
  subgoal by (frule getCollections_registry) simp
  subgoal by (frule getCollections_registry, frule fromDocuments_registry) simp
  subgoal by auto
  done

lemma storeEmbeddings_run:
  "(\<not> truthy (OPENAI_API_KEY e) \<and>
      storeEmbeddings e t md w = (Inl (Error ''OPENAI_API_KEY environment variable is not set''), w)) \<or>
   (truthy (OPENAI_API_KEY e) \<and>
      (\<exists>err w1.
         fromDocuments e [\<lparr>pageContent = t, metadata_d = json_of_metadata md, id_d = None\<rparr>]
           (Some \<lparr>size_v = 3072, distance_v = ''Cosine''\<rparr>) w = (Inl err, w1) \<and>
         storeEmbeddings e t md w = (Inl err, w1))) \<or>
   (truthy (OPENAI_API_KEY e) \<and>
      (\<exists>w1.
         fromDocuments e [\<lparr>pageContent = t, metadata_d = json_of_metadata md, id_d = None\<rparr>]
           (Some \<lparr>size_v = 3072, distance_v = ''Cosine''\<rparr>) w = (Inr (), w1) \<and>
         storeEmbeddings e t md w =
           (Inr (), w1\<lparr>globalSourcesContext := globalSourcesContext w1 @ [sourceInfo_of e md t]\<rparr>)))"
proof (cases "truthy (OPENAI_API_KEY e)")
  case False
  then show ?thesis by (simp add: storeEmbeddings_def io_throw_def)
next
  case key: True
  obtain r1 w1 where f:
    "fromDocuments e [\<lparr>pageContent = t, metadata_d = json_of_metadata md, id_d = None\<rparr>]
       (Some \<lparr>size_v = 3072, distance_v = ''Cosine''\<rparr>) w = (r1, w1)"
    by (cases "fromDocuments e [\<lparr>pageContent = t, metadata_d = json_of_metadata md, id_d = None\<rparr>]
       (Some \<lparr>size_v = 3072, distance_v = ''Cosine''\<rparr>) w")
  show ?thesis
  proof (cases r1)
    case (Inl err)
    with key f show ?thesis by (simp add: storeEmbeddings_def io_bind_def)
  next
    case (Inr u)
    with key f show ?thesis by (simp add: storeEmbeddings_def io_bind_def io_modify_def)
  qed
qed

lemma storeEmbeddings_registry:
  "globalSourcesContext (snd (storeEmbeddings e t md w)) =
     (if isl (fst (storeEmbeddings e t md w)) then globalSourcesContext w
      else globalSourcesContext w @ [sourceInfo_of e md t])"
  using storeEmbeddings_run[of e t md w]
  apply (elim disjE conjE exE)
  subgoal by simp
  subgoal by (frule fromDocuments_registry) simp
  subgoal by (frule fromDocuments_registry) simp
  done

lemma storeEmbeddings_appends_after_store:
  "globalSourcesContext (snd (storeEmbeddings e t md w)) \<noteq> globalSourcesContext w \<Longrightarrow>
     truthy (OPENAI_API_KEY e) \<and>
     (\<exists>w1. fromDocuments e [\<lparr>pageContent = t, metadata_d = json_of_metadata md, id_d = None\<rparr>]
             (Some \<lparr>size_v = 3072, distance_v = ''Cosine''\<rparr>) w = (Inr (), w1))"
  using storeEmbeddings_run[of e t md w]
  apply (elim disjE conjE exE)
  subgoal by simp
  subgoal by (frule fromDocuments_registry) simp
  subgoal by auto
  done

lemma finish_status:
  "status (fst (finish ok r)) = (if isl (fst r) then 500 else 200) \<and> snd (finish ok r) = snd r"
  by (cases r) (auto simp: finish_def respond_def split: sum.splits error.splits)

lemma post_embed_text_failure:
  "status (fst (post_embed_text e title content w)) \<noteq> 200 \<Longrightarrow>
     globalSourcesContext (snd (post_embed_text e title content w)) = globalSourcesContext w"
  using createAndStoreEmbeddings_registry[of e "the content" _ w]
  by (auto simp: post_embed_text_def finish_status respond_def split: if_splits)

lemma post_embed_url_failure:
  "status (fst (post_embed_url e title url w)) \<noteq> 200 \<Longrightarrow>
     globalSourcesContext (snd (post_embed_url e title url w)) = globalSourcesContext w"
proof (cases "\<not> truthy title \<or> \<not> truthy url")
  case True
  then show ?thesis by (auto simp: post_embed_url_def)
next
  case ok: False
  assume st: "status (fst (post_embed_url e title url w)) \<noteq> 200"
  show ?thesis
  proof (cases "web_load e (the url)")
    case (Inl err)
    with ok show ?thesis
      by (simp add: post_embed_url_def finish_status io_bind_def io_lift_def)
  next
    case (Inr docs)
    show ?thesis
    proof (cases "docs = []")
      case True
      with ok Inr show ?thesis
        by (simp add: post_embed_url_def finish_status io_bind_def io_lift_def io_throw_def)
    next
      case False
      with ok Inr st show ?thesis
        using createAndStoreEmbeddings_registry[of e "join (nl @ nl) (map pageContent docs)" _ w]
        by (auto simp: post_embed_url_def finish_status io_bind_def io_lift_def split: if_splits)
    qed
  qed
qed

lemma post_embed_pdf_failure:
  assumes st: "status (fst (post_embed_pdf e upl w)) \<noteq> 200"
  shows "globalSourcesContext (snd (post_embed_pdf e upl w)) = globalSourcesContext w \<or>
     (\<exists>f docs w1. upl = Some f \<and> truthy (OPENAI_API_KEY e) \<and>
        pdf_load e (path_u f) = Inr docs \<and>
        fromDocuments e docs None w = (Inr (), w1) \<and> unlinkSync e (path_u f) \<noteq> None)"
proof (cases upl)
  case None
  then show ?thesis by (simp add: post_embed_pdf_def)
next
  case (Some f)
  show ?thesis
  proof (cases "pdf_load e (path_u f)")
    case (Inl err)
    with Some show ?thesis
      by (simp add: post_embed_pdf_def finish_status io_bind_def io_lift_def)
  next
    case (Inr docs)
    show ?thesis
    proof (cases "truthy (OPENAI_API_KEY e)")
      case False
      with Some Inr show ?thesis
        by (simp add: post_embed_pdf_def finish_status io_bind_def io_lift_def io_throw_def)
    next
      case key: True
      obtain r1 w1 where fd: "fromDocuments e docs None w = (r1, w1)"
        by (cases "fromDocuments e docs None w")
      from fd have reg: "globalSourcesContext w1 = globalSourcesContext w"
        by (rule fromDocuments_registry)
      show ?thesis
      proof (cases r1)
        case (Inl err)
        with Some Inr key fd reg show ?thesis
          by (simp add: post_embed_pdf_def finish_status io_bind_def io_lift_def)
      next
        case r1: (Inr u)
        have "unlinkSync e (path_u f) \<noteq> None"
        proof
          assume "unlinkSync e (path_u f) = None"
          with Some Inr key fd r1 have "status (fst (post_embed_pdf e upl w)) = 200"
            by (simp add: post_embed_pdf_def finish_status io_bind_def io_lift_def io_modify_def)
          with st show False by simp
        qed
        with Some Inr key fd r1 show ?thesis by simp
      qed
    qed
  qed
qed

lemma post_embed_pdf_missing_key:
  "\<not> truthy (OPENAI_API_KEY e) \<Longrightarrow>
     globalSourcesContext (snd (post_embed_pdf e upl w)) = globalSourcesContext w \<and>
     status (fst (post_embed_pdf e upl w)) \<noteq> 200"
  by (cases upl; cases "pdf_load e (path_u (the upl))")
     (simp_all add: post_embed_pdf_def finish_status io_bind_def io_lift_def io_throw_def
        respond_def)

lemma post_embed_pdf_store_failure:
  assumes "upl = Some f" and "pdf_load e (path_u f) = Inr docs"
    and "isl (fst (fromDocuments e docs None w))"
  shows "globalSourcesContext (snd (post_embed_pdf e upl w)) = globalSourcesContext w \<and>
         status (fst (post_embed_pdf e upl w)) \<noteq> 200"
proof -
  obtain r1 w1 where fd: "fromDocuments e docs None w = (r1, w1)"
    by (cases "fromDocuments e docs None w")
  from fd have reg: "globalSourcesContext w1 = globalSourcesContext w"
    by (rule fromDocuments_registry)
  from assms(3) fd obtain err where "r1 = Inl err" by (cases r1) auto
  with assms(1,2) fd reg show ?thesis
    by (cases "truthy (OPENAI_API_KEY e)")
       (simp_all add: post_embed_pdf_def finish_status io_bind_def io_lift_def io_throw_def)
qed

text \<open>
  What holds of every ingest path: a text or URL request that does not answer 200 leaves
  the registry unchanged; a PDF request with a missing credential, or whose
  \<^verbatim>\<open>fromDocuments\<close> throws, leaves it unchanged, and a PDF request that does not answer
  200 changes it only when the credential is set, \<^verbatim>\<open>fromDocuments\<close> has returned and the
  deletion of the temporary file failed afterwards. \<^verbatim>\<open>createAndStoreEmbeddings\<close> and
  \<^verbatim>\<open>storeEmbeddings\<close> that throw leave it unchanged, and whenever they change it
  \<^verbatim>\<open>fromDocuments\<close> has returned before.
\<close>

lemma failed_ingest_keeps_registry:
  "(status (fst (post_embed_text e title content w)) \<noteq> 200 \<longrightarrow>
      globalSourcesContext (snd (post_embed_text e title content w)) = globalSourcesContext w) \<and>
   (status (fst (post_embed_url e title url w)) \<noteq> 200 \<longrightarrow>
      globalSourcesContext (snd (post_embed_url e title url w)) = globalSourcesContext w) \<and>
   (\<not> truthy (OPENAI_API_KEY e) \<longrightarrow>
      globalSourcesContext (snd (post_embed_pdf e upl w)) = globalSourcesContext w) \<and>
   (status (fst (post_embed_pdf e upl w)) \<noteq> 200 \<longrightarrow>
      globalSourcesContext (snd (post_embed_pdf e upl w)) = globalSourcesContext w \<or>
      (\<exists>f docs w1. upl = Some f \<and> truthy (OPENAI_API_KEY e) \<and>
         pdf_load e (path_u f) = Inr docs \<and>
         fromDocuments e docs None w = (Inr (), w1) \<and> unlinkSync e (path_u f) \<noteq> None)) \<and>
   (isl (fst (createAndStoreEmbeddings e t md w)) \<longrightarrow>
      globalSourcesContext (snd (createAndStoreEmbeddings e t md w)) = globalSourcesContext w) \<and>
   (isl (fst (storeEmbeddings e t md w)) \<longrightarrow>
      globalSourcesContext (snd (storeEmbeddings e t md w)) = globalSourcesContext w) \<and>
   (globalSourcesContext (snd (createAndStoreEmbeddings e t md w)) \<noteq> globalSourcesContext w \<longrightarrow>
      (\<exists>cs w0 w1. getCollections w = (Inr cs, w0) \<and>
         fromDocuments e [\<lparr>pageContent = t, metadata_d = json_of_metadata md, id_d = None\<rparr>] None w0 = (Inr (), w1) \<and>
         snd (createAndStoreEmbeddings e t md w) = updateGlobalContext e md t w1)) \<and>
   (globalSourcesContext (snd (storeEmbeddings e t md w)) \<noteq> globalSourcesContext w \<longrightarrow>
      (\<exists>w1. fromDocuments e [\<lparr>pageContent = t, metadata_d = json_of_metadata md, id_d = None\<rparr>]
              (Some \<lparr>size_v = 3072, distance_v = ''Cosine''\<rparr>) w = (Inr (), w1)))"
proof (intro conjI impI)
  assume "status (fst (post_embed_text e title content w)) \<noteq> 200"
  then show "globalSourcesContext (snd (post_embed_text e title content w)) = globalSourcesContext w"
    by (rule post_embed_text_failure)
next
  assume "status (fst (post_embed_url e title url w)) \<noteq> 200"
  then show "globalSourcesContext (snd (post_embed_url e title url w)) = globalSourcesContext w"
    by (rule post_embed_url_failure)
next
  assume "\<not> truthy (OPENAI_API_KEY e)"
  then show "globalSourcesContext (snd (post_embed_pdf e upl w)) = globalSourcesContext w"
    using post_embed_pdf_missing_key by blast
next
  assume "status (fst (post_embed_pdf e upl w)) \<noteq> 200"
  then show "globalSourcesContext (snd (post_embed_pdf e upl w)) = globalSourcesContext w \<or>
      (\<exists>f docs w1. upl = Some f \<and> truthy (OPENAI_API_KEY e) \<and>
         pdf_load e (path_u f) = Inr docs \<and>
         fromDocuments e docs None w = (Inr (), w1) \<and> unlinkSync e (path_u f) \<noteq> None)"
    by (rule post_embed_pdf_failure)
next
  assume "isl (fst (createAndStoreEmbeddings e t md w))"
  then show "globalSourcesContext (snd (createAndStoreEmbeddings e t md w)) = globalSourcesContext w"
    by (simp add: createAndStoreEmbeddings_registry)
next
  assume "isl (fst (storeEmbeddings e t md w))"
  then show "globalSourcesContext (snd (storeEmbeddings e t md w)) = globalSourcesContext w"
    by (simp add: storeEmbeddings_registry)
next
  assume "globalSourcesContext (snd (createAndStoreEmbeddings e t md w)) \<noteq> globalSourcesContext w"
  then show "\<exists>cs w0 w1. getCollections w = (Inr cs, w0) \<and>
         fromDocuments e [\<lparr>pageContent = t, metadata_d = json_of_metadata md, id_d = None\<rparr>] None w0 = (Inr (), w1) \<and>
         snd (createAndStoreEmbeddings e t md w) = updateGlobalContext e md t w1"
    using createAndStoreEmbeddings_appends_after_store by blast
next
  assume "globalSourcesContext (snd (storeEmbeddings e t md w)) \<noteq> globalSourcesContext w"
  then show "\<exists>w1. fromDocuments e [\<lparr>pageContent = t, metadata_d = json_of_metadata md, id_d = None\<rparr>]
              (Some \<lparr>size_v = 3072, distance_v = ''Cosine''\<rparr>) w = (Inr (), w1)"
    using storeEmbeddings_appends_after_store by blast
qed

text \<open>A \<^verbatim>\<open>fromDocuments\<close> of one document that returns has written its point: the
  collection ends with the embedding, the text and the metadata of the document.\<close>

lemma fromDocuments_single_stores_point:
  assumes "fromDocuments e [d] cfg w = (Inr (), w')"
  shows "\<exists>v c. embed e (pageContent d) = Inr v \<and> collections w' collectionName = Some c \<and>
           points_c c \<noteq> [] \<and> last (points_c c) = point_of e (0, v, d)"
proof (cases "embed e (pageContent d)")
  case (Inl err)
  with assms show ?thesis by (simp add: fromDocuments_def io_bind_def io_lift_def)
next
  case (Inr v)
  obtain r1 w1 where en: "vs_ensureCollection e cfg w = (r1, w1)"
    by (cases "vs_ensureCollection e cfg w")
  show ?thesis
  proof (cases r1)
    case (Inl err)
    with assms Inr en show ?thesis by (simp add: fromDocuments_def io_bind_def io_lift_def)
  next
    case r1: (Inr u)
    with assms Inr en have "upsert collectionName [point_of e (0, v, d)] w1 = (Inr (), w')"
      by (simp add: fromDocuments_def io_bind_def io_lift_def)
    then have "\<exists>c. collections w' collectionName = Some c \<and>
           points_c c \<noteq> [] \<and> last (points_c c) = point_of e (0, v, d)"
      by (auto simp: upsert_def io_bind_def request_def
               split: prod.splits sum.splits option.splits list.splits if_splits)
    with Inr show ?thesis by blast
  qed
qed

lemma createAndStoreEmbeddings_stores_point:
  assumes "createAndStoreEmbeddings e t md w = (Inr (), w')"
  shows "\<exists>v c. embed e t = Inr v \<and> collections w' collectionName = Some c \<and>
           points_c c \<noteq> [] \<and>
           last (points_c c) =
             \<lparr>id_p = uuid e 0, vector_p = v, content_p = t, metadata_p = json_of_metadata md\<rparr>"
proof -
  from createAndStoreEmbeddings_run[of e t md w] assms obtain w0 w1 where
    fd: "fromDocuments e [\<lparr>pageContent = t, metadata_d = json_of_metadata md, id_d = None\<rparr>] None w0 =
           (Inr (), w1)" and w': "w' = updateGlobalContext e md t w1"
    by auto
  from fromDocuments_single_stores_point[OF fd] w' show ?thesis
    by (auto simp: updateGlobalContext_def point_of_def)
qed

text \<open>Example runs of \<^verbatim>\<open>POST /api/embed-text\<close>: the store cannot be reached, the
  embedding credential is missing, the embedding service fails, and a successful
  ingestion.\<close>

lemma example_store_failure:
  "post_embed_text example_env (Some ''Note2'') (Some ''Grass is green.'')
     (example_world [example_source ''source_1_a'' ''Note1''] [] [True]) =
   (respond 500 (error_body ''Cannot connect to Qdrant at http://localhost. Please check if the database is running and accessible.''),
    example_world [example_source ''source_1_a'' ''Note1''] [] [])"
  by (simp add: post_embed_text_def truthy_def example_env_def example_world_def finish_def
        createAndStoreEmbeddings_def io_catch_def io_bind_def io_throw_def getCollections_def
        request_def rethrow_connection_def)

lemma example_missing_key:
  "post_embed_text (example_env\<lparr>OPENAI_API_KEY := None\<rparr>) (Some ''Note2'') (Some ''Grass is green.'')
     (example_world [example_source ''source_1_a'' ''Note1''] [] []) =
   (respond 500 (error_body ''OPENAI_API_KEY environment variable is not set''),
    example_world [example_source ''source_1_a'' ''Note1''] [] [])"
  by (simp add: post_embed_text_def truthy_def example_env_def finish_def
        createAndStoreEmbeddings_def io_throw_def)

lemma example_embedding_failure:
  "post_embed_text (example_env\<lparr>embed := (\<lambda>t. Inl (Error ''429 rate limit''))\<rparr>) (Some ''Note2'') (Some ''Grass is green.'')
     (example_world [example_source ''source_1_a'' ''Note1''] [] []) =
   (respond 500 (error_body ''429 rate limit''),
    example_world [example_source ''source_1_a'' ''Note1''] [] [])"
  by (simp add: post_embed_text_def truthy_def example_env_def example_world_def finish_def
        createAndStoreEmbeddings_def io_catch_def io_bind_def io_throw_def getCollections_def
        request_def rethrow_connection_def fromDocuments_def io_lift_def)

lemma example_ingest_ok:
  "post_embed_text example_env (Some ''Note2'') (Some ''Grass is green.'')
     (example_world [example_source ''source_1_a'' ''Note1''] [] []) =
   (respond 200 (message_body ''Text embedded successfully!''),
    example_world
      [example_source ''source_1_a'' ''Note1'',
       sourceInfo_of example_env
         \<lparr>type_m = ''text'', title_m = ''Note2'', url_m = None, source_m = Some ''user_input'',
          timestamp_m = Some ''2023-11-14T22:13:20.000Z''\<rparr> ''Grass is green.'']
      [\<lparr>id_p = uuid example_env 0,
        vector_p = replicate 3072 0, content_p = ''Grass is green.'',
        metadata_p = json_of_metadata
          \<lparr>type_m = ''text'', title_m = ''Note2'', url_m = None, source_m = Some ''user_input'',
           timestamp_m = Some ''2023-11-14T22:13:20.000Z''\<rparr>\<rparr>] [])"
  by (simp add: post_embed_text_def truthy_def example_env_def example_world_def finish_def
        createAndStoreEmbeddings_def io_catch_def io_bind_def io_throw_def getCollections_def
        request_def fromDocuments_def io_lift_def vs_ensureCollection_def io_return_def
        upsert_def point_of_def io_modify_def updateGlobalContext_def digit_char_def)

text \<open>The URL handler refuses a page from which no document was extracted, before any
  call of the store, and leaves the world as it was.\<close>

lemma url_without_documents_refused:
  assumes "truthy title" and "truthy url" and "web_load e (the url) = Inr []"
  shows "post_embed_url e title url w =
           (respond 500 (error_body ''Could not extract content from URL''), w)"
  using assms
  by (simp add: post_embed_url_def finish_def io_bind_def io_lift_def io_throw_def)

text \<open>
  C2 on the PDF handler of index.js: for a PDF from which the loader extracts no page
  (\<^verbatim>\<open>docs\<close> is empty), \<^verbatim>\<open>fromDocuments\<close> returns without any request to the store,
  whether the store can be reached or not, and the handler appends the registry entry all
  the same: the entry has no vector in the collection. The collections and the store's
  request stream are what they were; the answer is 200, or 500 when the deletion of the
  temporary file fails, and the entry is in the registry in both cases.
\<close>

theorem pdf_without_pages_appends_unstored:
  assumes docs: "pdf_load e (path_u f) = Inr []"
    and key: "truthy (OPENAI_API_KEY e)"
  shows "globalSourcesContext (snd (post_embed_pdf e (Some f) w)) =
           globalSourcesContext w @
             [sourceInfo_of e
                \<lparr>type_m = ''pdf'', title_m = originalname f, url_m = None,
                 source_m = None, timestamp_m = Some (iso_request e)\<rparr> []] \<and>
         collections (snd (post_embed_pdf e (Some f) w)) = collections w \<and>
         store_faults (snd (post_embed_pdf e (Some f) w)) = store_faults w \<and>
         status (fst (post_embed_pdf e (Some f) w)) =
           (if unlinkSync e (path_u f) = None then 200 else 500)"
proof (cases "unlinkSync e (path_u f)")
  case None
  with docs key show ?thesis
    by (simp add: post_embed_pdf_def finish_def io_bind_def io_lift_def fromDocuments_def
          io_return_def io_modify_def updateGlobalContext_def respond_def)
next
  case (Some err)
  with docs key show ?thesis
    by (cases err)
       (simp add: post_embed_pdf_def finish_def io_bind_def io_lift_def fromDocuments_def
          io_return_def io_modify_def updateGlobalContext_def respond_def)
qed

theorem pdf_without_pages_appends_unstored_witness:
  "pdf_load (example_env\<lparr>pdf_load := (\<lambda>p. Inr [])\<rparr>) (path_u \<lparr>originalname = ''scan.pdf'', path_u = ''uploads/1''\<rparr>) = Inr [] \<and>
   truthy (OPENAI_API_KEY (example_env\<lparr>pdf_load := (\<lambda>p. Inr [])\<rparr>)) \<and>
   store_faults (example_world [] [] [True]) = [True] \<and>
   status (fst (post_embed_pdf (example_env\<lparr>pdf_load := (\<lambda>p. Inr [])\<rparr>)
      (Some \<lparr>originalname = ''scan.pdf'', path_u = ''uploads/1''\<rparr>) (example_world [] [] [True]))) = 200 \<and>
   length (globalSourcesContext (snd (post_embed_pdf (example_env\<lparr>pdf_load := (\<lambda>p. Inr [])\<rparr>)
      (Some \<lparr>originalname = ''scan.pdf'', path_u = ''uploads/1''\<rparr>) (example_world [] [] [True])))) = 1 \<and>
   collections (snd (post_embed_pdf (example_env\<lparr>pdf_load := (\<lambda>p. Inr [])\<rparr>)
      (Some \<lparr>originalname = ''scan.pdf'', path_u = ''uploads/1''\<rparr>) (example_world [] [] [True]))) collectionName =
     Some \<lparr>size_c = 3072, distance_c = ''Cosine'', points_c = []\<rparr> \<and>
   store_faults (snd (post_embed_pdf (example_env\<lparr>pdf_load := (\<lambda>p. Inr [])\<rparr>)
      (Some \<lparr>originalname = ''scan.pdf'', path_u = ''uploads/1''\<rparr>) (example_world [] [] [True]))) = [True]"
proof -
  have d: "pdf_load (example_env\<lparr>pdf_load := (\<lambda>p. Inr [])\<rparr>)
             (path_u \<lparr>originalname = ''scan.pdf'', path_u = ''uploads/1''\<rparr>) = Inr []"
    by simp
  have k: "truthy (OPENAI_API_KEY (example_env\<lparr>pdf_load := (\<lambda>p. Inr [])\<rparr>))"
    by (simp add: example_env_def truthy_def)
  have u: "unlinkSync (example_env\<lparr>pdf_load := (\<lambda>p. Inr [])\<rparr>)
             (path_u \<lparr>originalname = ''scan.pdf'', path_u = ''uploads/1''\<rparr>) = None"
    by (simp add: example_env_def)
  from pdf_without_pages_appends_unstored[OF d k, of "example_world [] [] [True]"] d k u
  show ?thesis by (simp add: example_world_def)
qed

section \<open>Excerpts of ingested texts\<close>

lemma post_embed_text_success:
  assumes "status (fst (post_embed_text e title content w)) = 200"
  shows "truthy title \<and> truthy content \<and>
         globalSourcesContext (snd (post_embed_text e title content w)) =
           globalSourcesContext w @
             [sourceInfo_of e
                \<lparr>type_m = ''text'', title_m = the title, url_m = None,
                 source_m = Some ''user_input'', timestamp_m = Some (iso_request e)\<rparr>
                (the content)]"
proof (cases "\<not> truthy title \<or> \<not> truthy content")
  case True
  with assms show ?thesis by (auto simp: post_embed_text_def respond_def)
next
  case False
  with assms show ?thesis
    using createAndStoreEmbeddings_registry[of e "the content"
        "\<lparr>type_m = ''text'', title_m = the title, url_m = None,
          source_m = Some ''user_input'', timestamp_m = Some (iso_request e)\<rparr>" w]
    by (auto simp: post_embed_text_def finish_status split: if_splits)
qed

lemma storeEmbeddings_success:
  assumes "fst (storeEmbeddings e t md w) = Inr ()"
  shows "globalSourcesContext (snd (storeEmbeddings e t md w)) =
           globalSourcesContext w @ [sourceInfo_of e md t]"
  using assms storeEmbeddings_registry[of e t md w] by simp

text \<open>
  C9: the excerpt stored for an ingested text never exceeds the cap of 200 characters
  plus the ellipsis marker, whatever the length of the text, and for a text of at least
  200 characters (a text of 10,000 characters among them) its length is exactly the cap
  plus the marker. This is so for the entry that \<^verbatim>\<open>updateGlobalContext\<close> appends, for
  the entry a successful \<^verbatim>\<open>POST /api/embed-text\<close> leaves last in the registry, and for
  the one a successful \<^verbatim>\<open>storeEmbeddings\<close> of the optimized server leaves there.
\<close>

theorem excerpt_truncated_to_cap:
  "length (content_s (last (globalSourcesContext (updateGlobalContext e md t w)))) \<le> 200 + length ''...'' \<and>
   (200 \<le> length t \<longrightarrow>
      length (content_s (last (globalSourcesContext (updateGlobalContext e md t w)))) = 200 + length ''...'') \<and>
   (status (fst (post_embed_text e title (Some t) w)) = 200 \<longrightarrow>
      length (content_s (last (globalSourcesContext (snd (post_embed_text e title (Some t) w))))) =
        min 200 (length t) + length ''...'') \<and>
   (fst (storeEmbeddings e t md w) = Inr () \<longrightarrow>
      length (content_s (last (globalSourcesContext (snd (storeEmbeddings e t md w))))) =
        min 200 (length t) + length ''...'')"
proof (intro conjI impI)
  show "length (content_s (last (globalSourcesContext (updateGlobalContext e md t w)))) \<le> 200 + length ''...''"
    by (simp add: updateGlobalContext_def excerpt_length)
next
  assume "200 \<le> length t"
  then show "length (content_s (last (globalSourcesContext (updateGlobalContext e md t w)))) = 200 + length ''...''"
    by (simp add: updateGlobalContext_def excerpt_length)
next
  assume "status (fst (post_embed_text e title (Some t) w)) = 200"
  from post_embed_text_success[OF this]
  show "length (content_s (last (globalSourcesContext (snd (post_embed_text e title (Some t) w))))) =
        min 200 (length t) + length ''...''"
    by (simp add: excerpt_length)
next
  assume "fst (storeEmbeddings e t md w) = Inr ()"
  from storeEmbeddings_success[OF this]
  show "length (content_s (last (globalSourcesContext (snd (storeEmbeddings e t md w))))) =
        min 200 (length t) + length ''...''"
    by (simp add: excerpt_length)
qed

text \<open>
  A text of 10,000 characters is ingested.
\<close>

lemma example_ingest_long:
  "status (fst (post_embed_text example_env (Some ''Long'') (Some (replicate 10000 CHR ''a''))
      (example_world [] [] []))) = 200"
  by (simp add: post_embed_text_def truthy_def example_env_def example_world_def finish_def
        createAndStoreEmbeddings_def io_catch_def io_bind_def io_throw_def getCollections_def
        request_def fromDocuments_def io_lift_def vs_ensureCollection_def io_return_def
        upsert_def point_of_def io_modify_def respond_def)

theorem excerpt_truncated_to_cap_witness:
  "length (replicate 10000 CHR ''a'') = 10000 \<and>
   status (fst (post_embed_text example_env (Some ''Long'') (Some (replicate 10000 CHR ''a''))
      (example_world [] [] []))) = 200 \<and>
   length (content_s (last (globalSourcesContext
      (snd (post_embed_text example_env (Some ''Long'') (Some (replicate 10000 CHR ''a''))
        (example_world [] [] [])))))) = 203"
  using excerpt_truncated_to_cap[of example_env _ "replicate 10000 CHR ''a''" "example_world [] [] []" "Some ''Long''"]
        example_ingest_long
  by simp

text \<open>
  C10, as the code has it: the excerpt is the first \<open>min 200 (length t)\<close> characters of the
  text followed by \<^verbatim>\<open>...\<close>; the marker is appended to a text shorter than 200
  characters too. The excerpt equals the text itself exactly for the texts of 203
  characters that end in \<^verbatim>\<open>...\<close>.
\<close>

theorem excerpt_prefix_and_ellipsis:
  "content_s (last (globalSourcesContext (updateGlobalContext e md t w))) =
     take (min 200 (length t)) t @ ''...'' \<and>
   (length t < 200 \<longrightarrow> content_s (last (globalSourcesContext (updateGlobalContext e md t w))) = t @ ''...'') \<and>
   (content_s (last (globalSourcesContext (updateGlobalContext e md t w))) = t \<longleftrightarrow>
      length t = 203 \<and> drop 200 t = ''...'') \<and>
   (status (fst (post_embed_text e title (Some t) w)) = 200 \<longrightarrow>
      content_s (last (globalSourcesContext (snd (post_embed_text e title (Some t) w)))) =
        take (min 200 (length t)) t @ ''...'') \<and>
   (fst (storeEmbeddings e t md w) = Inr () \<longrightarrow>
      content_s (last (globalSourcesContext (snd (storeEmbeddings e t md w)))) =
        take (min 200 (length t)) t @ ''...'')"
proof (intro conjI impI)
  show "content_s (last (globalSourcesContext (updateGlobalContext e md t w))) =
     take (min 200 (length t)) t @ ''...''"
    by (simp add: updateGlobalContext_def excerpt_eq take_min_length)
next
  assume "length t < 200"
  then show "content_s (last (globalSourcesContext (updateGlobalContext e md t w))) = t @ ''...''"
    by (simp add: updateGlobalContext_def excerpt_eq)
next
  show "content_s (last (globalSourcesContext (updateGlobalContext e md t w))) = t \<longleftrightarrow>
      length t = 203 \<and> drop 200 t = ''...''"
    using excerpt_fixpoint[of e md t] by (simp add: updateGlobalContext_def)
next
  assume "status (fst (post_embed_text e title (Some t) w)) = 200"
  from post_embed_text_success[OF this]
  show "content_s (last (globalSourcesContext (snd (post_embed_text e title (Some t) w)))) =
        take (min 200 (length t)) t @ ''...''"
    by (simp add: excerpt_eq take_min_length)
next
  assume "fst (storeEmbeddings e t md w) = Inr ()"
  from storeEmbeddings_success[OF this]
  show "content_s (last (globalSourcesContext (snd (storeEmbeddings e t md w)))) =
        take (min 200 (length t)) t @ ''...''"
    by (simp add: excerpt_eq take_min_length)
qed

lemma example_ingest_short:
  "status (fst (post_embed_text example_env (Some ''Note1'') (Some ''The sky is blue.'')
      (example_world [] [] []))) = 200"
  by (simp add: post_embed_text_def truthy_def example_env_def example_world_def finish_def
        createAndStoreEmbeddings_def io_catch_def io_bind_def io_throw_def getCollections_def
        request_def fromDocuments_def io_lift_def vs_ensureCollection_def io_return_def
        upsert_def point_of_def io_modify_def respond_def)

theorem excerpt_prefix_and_ellipsis_witness:
  "length ''The sky is blue.'' < 200 \<and>
   status (fst (post_embed_text example_env (Some ''Note1'') (Some ''The sky is blue.'')
      (example_world [] [] []))) = 200 \<and>
   content_s (last (globalSourcesContext
      (snd (post_embed_text example_env (Some ''Note1'') (Some ''The sky is blue.'')
         (example_world [] [] []))))) = ''The sky is blue....''"
  using excerpt_prefix_and_ellipsis[of example_env _ "''The sky is blue.''" "example_world [] [] []" "Some ''Note1''"]
        example_ingest_short
  by simp

text \<open>
  Ingesting a text of 203 characters that ends in three dots stores an excerpt that is
  the text itself.
\<close>

theorem excerpt_equals_text_counterexample:
  "status (fst (post_embed_text example_env (Some ''Dots'') (Some text_203) (example_world [] [] []))) = 200 \<and>
   content_s (last (globalSourcesContext
      (snd (post_embed_text example_env (Some ''Dots'') (Some text_203) (example_world [] [] []))))) = text_203"
proof -
  have st: "status (fst (post_embed_text example_env (Some ''Dots'') (Some text_203) (example_world [] [] []))) = 200"
    by (simp add: post_embed_text_def truthy_def example_env_def example_world_def finish_def
        createAndStoreEmbeddings_def io_catch_def io_bind_def io_throw_def getCollections_def
        request_def fromDocuments_def io_lift_def vs_ensureCollection_def io_return_def
        upsert_def point_of_def io_modify_def respond_def text_203_def)
  from post_embed_text_success[OF st] have
    "content_s (last (globalSourcesContext
      (snd (post_embed_text example_env (Some ''Dots'') (Some text_203) (example_world [] [] []))))) =
     take 200 text_203 @ ''...''"
    by (simp add: excerpt_eq)
  with st show ?thesis by (simp add: text_203_def)
qed

section \<open>The collection lifecycle of the optimized server\<close>

lemma request_no_fault: "store_faults w = [] \<Longrightarrow> request w = (Inr (), w)"
  by (simp add: request_def)

lemma request_collections: "request w = (r, w') \<Longrightarrow> collections w' = collections w"
  by (auto simp: request_def split: list.splits if_splits)

lemma ensureCollection_run:
  "ensureCollection w =
     (case request w of
        (Inl err, w1) \<Rightarrow> createCollection collectionName \<lparr>size_v = 3072, distance_v = ''Cosine''\<rparr> w1
      | (Inr u, w1) \<Rightarrow>
          (case collections w1 collectionName of
             None \<Rightarrow> createCollection collectionName \<lparr>size_v = 3072, distance_v = ''Cosine''\<rparr> w1
           | Some c \<Rightarrow> (Inr (), w1)))"
  by (simp add: ensureCollection_def io_catch_def io_bind_def getCollection_def io_return_def
           split: prod.splits sum.splits option.splits)

lemma createCollection_run:
  "createCollection name cfg w =
     (case request w of
        (Inl err, w1) \<Rightarrow> (Inl err, w1)
      | (Inr u, w1) \<Rightarrow>
          (case collections w1 name of
             Some c \<Rightarrow> (Inl (Error ''Conflict''), w1)
           | None \<Rightarrow>
               (Inr (), w1\<lparr>collections := (collections w1)
                    (name \<mapsto> \<lparr>size_c = size_v cfg, distance_c = distance_v cfg, points_c = []\<rparr>)\<rparr>)))"
  by (simp add: createCollection_def io_bind_def split: prod.splits sum.splits option.splits)

lemma createCollection_existing:
  "collections w name \<noteq> None \<Longrightarrow> collections (snd (createCollection name cfg w)) = collections w"
  by (auto simp: createCollection_run split: prod.splits sum.splits option.splits
           dest: request_collections)

lemma createCollection_ok_exists:
  "createCollection name cfg w = (Inr u, w') \<Longrightarrow> collections w' name \<noteq> None"
  by (auto simp: createCollection_run split: prod.splits sum.splits option.splits)

lemma ensureCollection_existing:
  "collections w collectionName \<noteq> None \<Longrightarrow> collections (snd (ensureCollection w)) = collections w"
proof -
  assume ex: "collections w collectionName \<noteq> None"
  obtain r w1 where rq: "request w = (r, w1)" by (cases "request w")
  then have c1: "collections w1 = collections w" by (rule request_collections)
  with ex have ex1: "collections w1 collectionName \<noteq> None" by simp
  show ?thesis
  proof (cases r)
    case (Inl err)
    with rq have "ensureCollection w =
        createCollection collectionName \<lparr>size_v = 3072, distance_v = ''Cosine''\<rparr> w1"
      by (simp add: ensureCollection_run)
    with createCollection_existing[OF ex1] c1 show ?thesis by simp
  next
    case (Inr u)
    with rq ex1 have "ensureCollection w = (Inr (), w1)"
      by (auto simp: ensureCollection_run)
    with c1 show ?thesis by simp
  qed
qed

lemma ensureCollection_ok_exists:
  "fst (ensureCollection w) = Inr () \<Longrightarrow> collections (snd (ensureCollection w)) collectionName \<noteq> None"
proof -
  assume ok: "fst (ensureCollection w) = Inr ()"
  obtain r w1 where rq: "request w = (r, w1)" by (cases "request w")
  show ?thesis
  proof (cases "\<exists>c. r = Inr () \<and> collections w1 collectionName = Some c")
    case True
    with rq show ?thesis by (auto simp: ensureCollection_run)
  next
    case False
    with rq have eq: "ensureCollection w =
        createCollection collectionName \<lparr>size_v = 3072, distance_v = ''Cosine''\<rparr> w1"
      by (cases r) (auto simp: ensureCollection_run split: option.splits)
    obtain r2 w2 where cc: "createCollection collectionName \<lparr>size_v = 3072, distance_v = ''Cosine''\<rparr> w1 = (r2, w2)"
      by (cases "createCollection collectionName \<lparr>size_v = 3072, distance_v = ''Cosine''\<rparr> w1")
    with eq ok have "r2 = Inr ()" by simp
    with cc have "collections w2 collectionName \<noteq> None"
      using createCollection_ok_exists by blast
    with eq cc show ?thesis by simp
  qed
qed

lemma ensureCollection_no_fault:
  "store_faults w = [] \<Longrightarrow>
     ensureCollection w =
       (Inr (),
        case collections w collectionName of
          Some c \<Rightarrow> w
        | None \<Rightarrow> w\<lparr>collections := (collections w)
             (collectionName \<mapsto> \<lparr>size_c = 3072, distance_c = ''Cosine'', points_c = []\<rparr>)\<rparr>)"
  by (simp add: ensureCollection_run createCollection_run request_no_fault split: option.splits)

lemma ensureCollection_existing_result:
  "collections w collectionName \<noteq> None \<Longrightarrow>
     fst (ensureCollection w) =
       (if \<not> fault_at 0 w then Inr ()
        else if fault_at 1 w then Inl (Error ''fetch failed'')
        else Inl (Error ''Conflict''))"
  by (cases "store_faults w"; cases "tl (store_faults w)")
     (auto simp: ensureCollection_run createCollection_run request_def fault_at_def
           split: option.splits)

text \<open>
  C7, as the code has it: \<^verbatim>\<open>ensureCollection\<close> never replaces a collection that exists:
  whatever the store's network does, the collections are what they were. After a call
  that succeeded a second call leaves the collections unchanged. When the store can be
  reached the call succeeds, and calling it again succeeds too and changes nothing at all;
  a collection that is missing is created empty with 3072 dimensions and the Cosine
  distance. For a collection that exists the call succeeds exactly when its
  \<^verbatim>\<open>getCollection\<close> request is answered; when that request fails on the network, the
  \<^verbatim>\<open>catch\<close> goes on to \<^verbatim>\<open>createCollection\<close>, and its error reaches the caller: the
  network error when that request fails too, and otherwise the store's refusal to create
  the collection a second time.
\<close>

theorem ensureCollection_idempotent:
  "(collections w collectionName \<noteq> None \<longrightarrow>
      collections (snd (ensureCollection w)) = collections w \<and>
      fst (ensureCollection w) =
        (if \<not> fault_at 0 w then Inr ()
         else if fault_at 1 w then Inl (Error ''fetch failed'')
         else Inl (Error ''Conflict''))) \<and>
   (fst (ensureCollection w) = Inr () \<longrightarrow>
      collections (snd (ensureCollection (snd (ensureCollection w)))) =
        collections (snd (ensureCollection w)) \<and>
      fst (ensureCollection (snd (ensureCollection w))) =
        (if \<not> fault_at 0 (snd (ensureCollection w)) then Inr ()
         else if fault_at 1 (snd (ensureCollection w)) then Inl (Error ''fetch failed'')
         else Inl (Error ''Conflict''))) \<and>
   (store_faults w = [] \<longrightarrow>
      fst (ensureCollection w) = Inr () \<and>
      ensureCollection (snd (ensureCollection w)) = (Inr (), snd (ensureCollection w))) \<and>
   (store_faults w = [] \<and> collections w collectionName = None \<longrightarrow>
      collections (snd (ensureCollection w)) collectionName =
        Some \<lparr>size_c = 3072, distance_c = ''Cosine'', points_c = []\<rparr>)"
proof (intro conjI impI)
  assume "collections w collectionName \<noteq> None"
  then show "collections (snd (ensureCollection w)) = collections w"
    by (rule ensureCollection_existing)
next
  assume "collections w collectionName \<noteq> None"
  then show "fst (ensureCollection w) =
        (if \<not> fault_at 0 w then Inr ()
         else if fault_at 1 w then Inl (Error ''fetch failed'')
         else Inl (Error ''Conflict''))"
    by (rule ensureCollection_existing_result)
next
  assume "fst (ensureCollection w) = Inr ()"
  then have "collections (snd (ensureCollection w)) collectionName \<noteq> None"
    by (rule ensureCollection_ok_exists)
  then show "collections (snd (ensureCollection (snd (ensureCollection w)))) =
        collections (snd (ensureCollection w))"
    by (rule ensureCollection_existing)
next
  assume "fst (ensureCollection w) = Inr ()"
  then have "collections (snd (ensureCollection w)) collectionName \<noteq> None"
    by (rule ensureCollection_ok_exists)
  then show "fst (ensureCollection (snd (ensureCollection w))) =
        (if \<not> fault_at 0 (snd (ensureCollection w)) then Inr ()
         else if fault_at 1 (snd (ensureCollection w)) then Inl (Error ''fetch failed'')
         else Inl (Error ''Conflict''))"
    by (rule ensureCollection_existing_result)
next
  assume nf: "store_faults w = []"
  then show "fst (ensureCollection w) = Inr ()"
    by (simp add: ensureCollection_no_fault)
  from nf have nf1: "store_faults (snd (ensureCollection w)) = []"
    by (simp add: ensureCollection_no_fault split: option.splits)
  from nf have "collections (snd (ensureCollection w)) collectionName \<noteq> None"
    by (simp add: ensureCollection_no_fault split: option.splits)
  with ensureCollection_no_fault[OF nf1]
  show "ensureCollection (snd (ensureCollection w)) = (Inr (), snd (ensureCollection w))"
    by (auto split: option.splits)
next
  assume "store_faults w = [] \<and> collections w collectionName = None"
  then show "collections (snd (ensureCollection w)) collectionName =
        Some \<lparr>size_c = 3072, distance_c = ''Cosine'', points_c = []\<rparr>"
    by (simp add: ensureCollection_no_fault)
qed

theorem ensureCollection_idempotent_witness:
  "store_faults (example_world [] [example_point ''The sky is blue.''] []\<lparr>collections := Map.empty\<rparr>) = [] \<and>
   collections (example_world [] [example_point ''The sky is blue.''] []\<lparr>collections := Map.empty\<rparr>) collectionName = None \<and>
   collections (snd (ensureCollection (example_world [] [example_point ''The sky is blue.''] []\<lparr>collections := Map.empty\<rparr>))) collectionName =
     Some \<lparr>size_c = 3072, distance_c = ''Cosine'', points_c = []\<rparr> \<and>
   collections (example_world [] [example_point ''The sky is blue.''] [True]) collectionName \<noteq> None \<and>
   collections (snd (ensureCollection (example_world [] [example_point ''The sky is blue.''] [True]))) collectionName =
     Some \<lparr>size_c = 3072, distance_c = ''Cosine'', points_c = [example_point ''The sky is blue.'']\<rparr> \<and>
   fst (ensureCollection (example_world [] [example_point ''The sky is blue.''] [True])) =
     Inl (Error ''Conflict'')"
  using ensureCollection_idempotent[of "example_world [] [example_point ''The sky is blue.''] []\<lparr>collections := Map.empty\<rparr>"]
        ensureCollection_idempotent[of "example_world [] [example_point ''The sky is blue.''] [True]"]
  by (simp add: example_world_def fault_at_def)

text \<open>The collection is missing and the store answers the first two requests: the first
  call creates the collection and succeeds. The third request fails on the network: the
  second call, right after the first, ends with the store's refusal to create the
  collection again.\<close>

theorem ensureCollection_twice_counterexample:
  "fst (ensureCollection
          (example_world [] [] [False, False, True]\<lparr>collections := Map.empty\<rparr>)) = Inr () \<and>
   fst (ensureCollection (snd (ensureCollection
          (example_world [] [] [False, False, True]\<lparr>collections := Map.empty\<rparr>)))) =
     Inl (Error ''Conflict'')"
  by (simp add: ensureCollection_run createCollection_run request_def example_world_def)

section \<open>Clearing all sources\<close>

lemma deleteCollection_run:
  "deleteCollection name w =
     (case request w of
        (Inl err, w1) \<Rightarrow> (Inl err, w1)
      | (Inr u, w1) \<Rightarrow> (Inr (), w1\<lparr>collections := (collections w1)(name := None)\<rparr>))"
  by (simp add: deleteCollection_def io_bind_def split: prod.splits sum.splits)

text \<open>In index.js the inner \<^verbatim>\<open>try\<close> of the clear handler never throws.\<close>

lemma clear_store_step_total:
  "fst (io_catch
          (io_bind (deleteCollection collectionName) (\<lambda>_.
             createCollection collectionName \<lparr>size_v = 1536, distance_v = ''Cosine''\<rparr>))
          (\<lambda>err. io_return ()) w) = Inr ()"
  by (simp add: io_catch_def io_bind_def io_return_def split: prod.splits sum.splits)

lemma store_only_clear_store_step:
  "store_only
     (io_catch
        (io_bind (deleteCollection collectionName) (\<lambda>_.
           createCollection collectionName \<lparr>size_v = 1536, distance_v = ''Cosine''\<rparr>))
        (\<lambda>err. io_return ()))"
  by (intro store_only_catch store_only_bind) simp_all

lemma delete_sources_clear_always:
  "fst (delete_sources_clear w) =
     respond 200 (JObj [(''message'', JStr ''All sources and embeddings cleared successfully''),
                        (''totalSources'', JNum 0)]) \<and>
   globalSourcesContext (snd (delete_sources_clear w)) = []"
proof -
  let ?m = "io_catch
        (io_bind (deleteCollection collectionName) (\<lambda>_.
           createCollection collectionName \<lparr>size_v = 1536, distance_v = ''Cosine''\<rparr>))
        (\<lambda>err. io_return ())"
  let ?w0 = "w\<lparr>globalSourcesContext := []\<rparr>"
  obtain r w1 where m: "?m ?w0 = (r, w1)" by (cases "?m ?w0")
  from clear_store_step_total[of ?w0] m have r: "r = Inr ()" by simp
  from store_only_registry[OF store_only_clear_store_step m] have reg: "globalSourcesContext w1 = []" by simp
  from m r reg show ?thesis
    by (simp add: delete_sources_clear_def io_bind_def io_modify_def)
qed

lemma delete_sources_clear_no_fault:
  "store_faults w = [] \<Longrightarrow>
     snd (delete_sources_clear w) =
       w\<lparr>globalSourcesContext := [],
         collections := (collections w)
           (collectionName \<mapsto> \<lparr>size_c = 1536, distance_c = ''Cosine'', points_c = []\<rparr>)\<rparr>"
  by (simp add: delete_sources_clear_def io_bind_def io_modify_def io_catch_def
        deleteCollection_run createCollection_run request_no_fault)

text \<open>The clear handler of the optimized server, step by step.\<close>

lemma delete_sources_clear_opt_run:
  "delete_sources_clear_opt w =
     (case deleteCollection collectionName (w\<lparr>globalSourcesContext := []\<rparr>) of
        (Inl (Error m), w1) \<Rightarrow> (respond 500 (error_body m), w1)
      | (Inr u, w1) \<Rightarrow>
          (case ensureCollection w1 of
             (Inl (Error m), w2) \<Rightarrow> (respond 500 (error_body m), w2)
           | (Inr u, w2) \<Rightarrow>
               (respond 200 (JObj [(''message'', JStr ''All sources cleared successfully''),
                                   (''totalSources'', JNum 0)]), w2)))"
  by (simp add: delete_sources_clear_opt_def io_bind_def io_modify_def
           split: prod.splits sum.splits error.splits)

lemma delete_sources_clear_opt_registry:
  "globalSourcesContext (snd (delete_sources_clear_opt w)) = []"
proof -
  obtain r1 w1 where d: "deleteCollection collectionName (w\<lparr>globalSourcesContext := []\<rparr>) = (r1, w1)"
    by (cases "deleteCollection collectionName (w\<lparr>globalSourcesContext := []\<rparr>)")
  from store_only_registry[OF store_only_deleteCollection d] have reg1: "globalSourcesContext w1 = []" by simp
  obtain r2 w2 where e: "ensureCollection w1 = (r2, w2)" by (cases "ensureCollection w1")
  from store_only_registry[OF store_only_ensureCollection e] reg1 have reg2: "globalSourcesContext w2 = []" by simp
  from d e reg1 reg2 show ?thesis
    by (simp add: delete_sources_clear_opt_run split: sum.splits error.splits)
qed

lemma delete_sources_clear_opt_no_fault:
  "store_faults w = [] \<Longrightarrow>
     delete_sources_clear_opt w =
       (respond 200 (JObj [(''message'', JStr ''All sources cleared successfully''),
                           (''totalSources'', JNum 0)]),
        w\<lparr>globalSourcesContext := [],
          collections := (collections w)
            (collectionName \<mapsto> \<lparr>size_c = 3072, distance_c = ''Cosine'', points_c = []\<rparr>)\<rparr>)"
  by (simp add: delete_sources_clear_opt_run deleteCollection_run request_no_fault
        ensureCollection_no_fault)

lemma delete_sources_clear_opt_exact:
  "fst (delete_sources_clear_opt w) =
     (if fault_at 0 w \<or> fault_at 2 w then respond 500 (error_body ''fetch failed'')
      else respond 200 (JObj [(''message'', JStr ''All sources cleared successfully''),
                              (''totalSources'', JNum 0)]))"
proof (cases "store_faults w")
  case Nil
  then show ?thesis
    by (simp add: delete_sources_clear_opt_no_fault fault_at_def)
next
  case f1: (Cons a r1)
  show ?thesis
  proof (cases r1)
    case Nil
    with f1 show ?thesis
      by (simp add: delete_sources_clear_opt_run deleteCollection_run ensureCollection_run
            createCollection_run request_def fault_at_def)
  next
    case f2: (Cons b r2)
    show ?thesis
    proof (cases r2)
      case Nil
      with f1 f2 show ?thesis
        by (simp add: delete_sources_clear_opt_run deleteCollection_run ensureCollection_run
              createCollection_run request_def fault_at_def)
    next
      case (Cons c r3)
      with f1 f2 show ?thesis
        by (simp add: delete_sources_clear_opt_run deleteCollection_run ensureCollection_run
              createCollection_run request_def fault_at_def)
    qed
  qed
qed

text \<open>
  C3, as the code has it: \<^verbatim>\<open>DELETE /api/sources/clear\<close> empties the registry before
  it calls the store and never restores it. In index.js every error of the store is
  caught and only logged, so the answer is always 200 with
  \<^verbatim>\<open>{message, totalSources: 0}\<close>. The optimized server answers 500, with the error,
  exactly when its \<^verbatim>\<open>deleteCollection\<close> request (the first) or the
  \<^verbatim>\<open>createCollection\<close> request of \<^verbatim>\<open>ensureCollection\<close> (the third) fails, and 200 with
  \<^verbatim>\<open>{message, totalSources: 0}\<close> otherwise: the error of the \<^verbatim>\<open>getCollection\<close>
  request in between is caught. The registry is empty in every case.
\<close>

theorem clear_empties_registry_first:
  "fst (delete_sources_clear w) =
     respond 200 (JObj [(''message'', JStr ''All sources and embeddings cleared successfully''),
                        (''totalSources'', JNum 0)]) \<and>
   globalSourcesContext (snd (delete_sources_clear w)) = [] \<and>
   globalSourcesContext (snd (delete_sources_clear_opt w)) = [] \<and>
   fst (delete_sources_clear_opt w) =
     (if fault_at 0 w \<or> fault_at 2 w then respond 500 (error_body ''fetch failed'')
      else respond 200 (JObj [(''message'', JStr ''All sources cleared successfully''),
                              (''totalSources'', JNum 0)]))"
  using delete_sources_clear_always[of w] delete_sources_clear_opt_registry[of w]
        delete_sources_clear_opt_exact[of w]
  by simp

theorem clear_empties_registry_first_witness:
  "fst (delete_sources_clear_opt
          (example_world [example_source ''source_1_a'' ''Note1''] [] [True])) =
     respond 500 (error_body ''fetch failed'') \<and>
   fst (delete_sources_clear_opt
          (example_world [example_source ''source_1_a'' ''Note1''] [] [False, True])) =
     respond 200 (JObj [(''message'', JStr ''All sources cleared successfully''),
                        (''totalSources'', JNum 0)]) \<and>
   fst (delete_sources_clear_opt
          (example_world [example_source ''source_1_a'' ''Note1''] [] [False, False, True])) =
     respond 500 (error_body ''fetch failed'') \<and>
   globalSourcesContext (snd (delete_sources_clear_opt
          (example_world [example_source ''source_1_a'' ''Note1''] [] [False, False, True]))) = []"
  using clear_empties_registry_first[of "example_world [example_source ''source_1_a'' ''Note1''] [] [True]"]
        clear_empties_registry_first[of "example_world [example_source ''source_1_a'' ''Note1''] [] [False, True]"]
        clear_empties_registry_first[of "example_world [example_source ''source_1_a'' ''Note1''] [] [False, False, True]"]
  by (simp add: example_world_def fault_at_def)

text \<open>The store cannot be reached: index.js answers 200, the optimized server answers
  500 with the registry emptied.\<close>

theorem clear_store_error_counterexample:
  "fst (deleteCollection collectionName
          (example_world [example_source ''source_1_a'' ''Note1''] [] [True])) = Inl (Error ''fetch failed'') \<and>
   status (fst (delete_sources_clear
          (example_world [example_source ''source_1_a'' ''Note1''] [] [True]))) = 200 \<and>
   status (fst (delete_sources_clear_opt
          (example_world [example_source ''source_1_a'' ''Note1''] [] [True]))) = 500 \<and>
   globalSourcesContext (example_world [example_source ''source_1_a'' ''Note1''] [] [True]) =
     [example_source ''source_1_a'' ''Note1''] \<and>
   globalSourcesContext (snd (delete_sources_clear_opt
          (example_world [example_source ''source_1_a'' ''Note1''] [] [True]))) = []"
  by (simp add: delete_sources_clear_always delete_sources_clear_opt_registry respond_def
        delete_sources_clear_opt_run deleteCollection_run request_def example_world_def)

lemma getCollections_no_fault: "store_faults w = [] \<Longrightarrow> getCollections w = (Inr (collections w), w)"
  by (simp add: getCollections_def io_bind_def request_no_fault)

lemma fromDocuments_size_mismatch:
  assumes nf: "store_faults w = []"
    and c: "collections w collectionName = Some c"
    and sz: "size_c c \<noteq> embedding_dimensions"
    and dims: "\<forall>t v. embed e t = Inr v \<longrightarrow> length v = embedding_dimensions"
  shows "isl (fst (fromDocuments e [d] cfg w))"
proof (cases "embed e (pageContent d)")
  case (Inl err)
  then show ?thesis by (simp add: fromDocuments_def io_bind_def io_lift_def)
next
  case (Inr v)
  with dims have "length v = embedding_dimensions" by blast
  with sz have "length v \<noteq> size_c c" by simp
  with Inr nf c show ?thesis
    by (simp add: fromDocuments_def io_bind_def io_lift_def vs_ensureCollection_def
          getCollections_no_fault io_return_def upsert_def request_no_fault point_of_def)
qed

lemma createAndStoreEmbeddings_size_mismatch:
  assumes nf: "store_faults w = []"
    and c: "collections w collectionName = Some c"
    and sz: "size_c c \<noteq> embedding_dimensions"
    and dims: "\<forall>t v. embed e t = Inr v \<longrightarrow> length v = embedding_dimensions"
  shows "isl (fst (createAndStoreEmbeddings e t md w))"
  using createAndStoreEmbeddings_run[of e t md w]
        fromDocuments_size_mismatch[OF nf c sz dims, of "\<lparr>pageContent = t, metadata_d = json_of_metadata md, id_d = None\<rparr>" None]
  by (auto simp: getCollections_no_fault[OF nf])

lemma chat_size_mismatch:
  assumes nf: "store_faults w = []"
    and c: "collections w collectionName = Some c"
    and sz: "size_c c \<noteq> embedding_dimensions"
    and dims: "\<forall>t v. embed e t = Inr v \<longrightarrow> length v = embedding_dimensions"
  shows "isl (fst (chat e q w))"
proof (cases "embed e q")
  case (Inl err)
  with nf c show ?thesis
    by (simp add: chat_def io_catch_def io_bind_def fromExistingCollection_def
          vs_ensureCollection_def getCollections_no_fault io_return_def retrieve_def
          io_lift_def io_throw_def)
next
  case (Inr v)
  with dims have "length v = embedding_dimensions" by blast
  with sz have "length v \<noteq> size_c c" by simp
  with Inr nf c show ?thesis
    by (simp add: chat_def io_catch_def io_bind_def fromExistingCollection_def
          vs_ensureCollection_def getCollections_no_fault io_return_def retrieve_def
          io_lift_def io_throw_def search_def request_no_fault)
qed

text \<open>
  C1 on index.js: the clear handler empties the registry, but it recreates the collection
  with 1536 dimensions, which is not the dimensionality of the embeddings (3072). With a
  store that can be reached and an embedding service that returns vectors of 3072
  components, no text ingest after a clear succeeds, the registry stays empty, and no
  question is answered.
\<close>

theorem clear_then_ingest_fails:
  assumes nf: "store_faults w = []"
    and dims: "\<forall>t v. embed e t = Inr v \<longrightarrow> length v = embedding_dimensions"
  shows "status (fst (delete_sources_clear w)) = 200 \<and>
         globalSourcesContext (snd (delete_sources_clear w)) = [] \<and>
         collections (snd (delete_sources_clear w)) collectionName =
           Some \<lparr>size_c = 1536, distance_c = ''Cosine'', points_c = []\<rparr> \<and>
         1536 \<noteq> embedding_dimensions \<and>
         get_sources_context (snd (delete_sources_clear w)) =
           respond 200 (JObj [(''totalSources'', JNum 0), (''sources'', JArr [])]) \<and>
         status (fst (post_embed_text e title content (snd (delete_sources_clear w)))) \<noteq> 200 \<and>
         globalSourcesContext (snd (post_embed_text e title content (snd (delete_sources_clear w)))) = [] \<and>
         isl (fst (chat e q (snd (delete_sources_clear w))))"
proof -
  let ?w1 = "snd (delete_sources_clear w)"
  have st: "status (fst (delete_sources_clear w)) = 200"
    using delete_sources_clear_always[of w] by (simp add: respond_def)
  have reg: "globalSourcesContext ?w1 = []"
    using delete_sources_clear_always[of w] by simp
  have w1: "?w1 = w\<lparr>globalSourcesContext := [],
         collections := (collections w)
           (collectionName \<mapsto> \<lparr>size_c = 1536, distance_c = ''Cosine'', points_c = []\<rparr>)\<rparr>"
    using nf by (rule delete_sources_clear_no_fault)
  then have col: "collections ?w1 collectionName =
           Some \<lparr>size_c = 1536, distance_c = ''Cosine'', points_c = []\<rparr>"
    by simp
  from w1 nf have nf1: "store_faults ?w1 = []" by simp
  have ne: "(1536::nat) \<noteq> embedding_dimensions" by (simp add: embedding_dimensions_def)
  have fail: "isl (fst (createAndStoreEmbeddings e t md ?w1))" for t md
    by (rule createAndStoreEmbeddings_size_mismatch[OF nf1 col _ dims]) (simp add: ne)
  have st2: "status (fst (post_embed_text e title content ?w1)) \<noteq> 200"
    using fail by (simp add: post_embed_text_def finish_status respond_def)
  then have reg2: "globalSourcesContext (snd (post_embed_text e title content ?w1)) = globalSourcesContext ?w1"
    by (rule post_embed_text_failure)
  have ctx: "get_sources_context ?w1 =
           respond 200 (JObj [(''totalSources'', JNum 0), (''sources'', JArr [])])"
    using reg by (simp add: get_sources_context_def)
  have ch: "isl (fst (chat e q ?w1))"
    by (rule chat_size_mismatch[OF nf1 col _ dims]) (simp add: ne)
  from st reg col ne st2 reg2 ctx ch show ?thesis by simp
qed

lemma example_env_dimensions:
  "\<forall>t v. embed example_env t = Inr v \<longrightarrow> length v = embedding_dimensions"
  by (auto simp: example_env_def embedding_dimensions_def)

theorem clear_then_ingest_fails_witness:
  "store_faults (example_world [example_source ''source_1_a'' ''Note1''] [example_point ''The sky is blue.''] []) = [] \<and>
   status (fst (delete_sources_clear
     (example_world [example_source ''source_1_a'' ''Note1''] [example_point ''The sky is blue.''] []))) = 200 \<and>
   status (fst (post_embed_text example_env (Some ''Note1'') (Some ''The sky is blue.'')
     (snd (delete_sources_clear
       (example_world [example_source ''source_1_a'' ''Note1''] [example_point ''The sky is blue.''] []))))) \<noteq> 200 \<and>
   globalSourcesContext (snd (post_embed_text example_env (Some ''Note1'') (Some ''The sky is blue.'')
     (snd (delete_sources_clear
       (example_world [example_source ''source_1_a'' ''Note1''] [example_point ''The sky is blue.''] []))))) = []"
proof -
  have nf: "store_faults (example_world [example_source ''source_1_a'' ''Note1''] [example_point ''The sky is blue.''] []) = []"
    by (simp add: example_world_def)
  from clear_then_ingest_fails[OF nf example_env_dimensions, of "Some ''Note1''" "Some ''The sky is blue.''"] nf
  show ?thesis by simp
qed

text \<open>The run after the clear, evaluated: the store refuses the vector of 3072
  components.\<close>

lemma example_clear_then_ingest:
  "post_embed_text example_env (Some ''Note1'') (Some ''The sky is blue.'')
     (snd (delete_sources_clear
        (example_world [example_source ''source_1_a'' ''Note1''] [example_point ''The sky is blue.''] []))) =
   (respond 500 (error_body ''Bad Request''),
    \<lparr>globalSourcesContext = [],
     collections = [collectionName \<mapsto> \<lparr>size_c = 1536, distance_c = ''Cosine'', points_c = []\<rparr>],
     store_faults = [], completions = []\<rparr>)"
  by (simp add: delete_sources_clear_no_fault example_world_def post_embed_text_def truthy_def
        example_env_def finish_def createAndStoreEmbeddings_def io_catch_def io_bind_def
        io_throw_def getCollections_def request_def fromDocuments_def io_lift_def
        vs_ensureCollection_def io_return_def upsert_def point_of_def rethrow_connection_def)

text \<open>The optimized server recreates the collection with the dimensionality of the
  embeddings, and the ingest after its clear succeeds.\<close>

lemma storeEmbeddings_after_clear_opt:
  assumes nf: "store_faults w = []"
    and key: "truthy (OPENAI_API_KEY e)"
    and emb: "embed e t = Inr v" "length v = embedding_dimensions"
  shows "storeEmbeddings e t md (snd (delete_sources_clear_opt w)) =
           (Inr (),
            w\<lparr>globalSourcesContext := [sourceInfo_of e md t],
              collections := (collections w)
                (collectionName \<mapsto>
                   \<lparr>size_c = 3072, distance_c = ''Cosine'',
                    points_c = [\<lparr>id_p = uuid e 0, vector_p = v, content_p = t,
                                 metadata_p = json_of_metadata md\<rparr>]\<rparr>)\<rparr>)"
  using assms
  by (simp add: delete_sources_clear_opt_no_fault storeEmbeddings_def io_bind_def fromDocuments_def
        io_lift_def vs_ensureCollection_def getCollections_def request_def io_return_def
        upsert_def point_of_def io_modify_def embedding_dimensions_def)


section \<open>Retrieval and the system prompt\<close>

lemma join_occurs:
  "j < length xs \<Longrightarrow> \<exists>p r. join sep xs = p @ xs ! j @ r"
proof (induction sep xs arbitrary: j rule: join.induct)
  case (1 sep)
  then show ?case by simp
next
  case (2 sep x)
  then show ?case by (intro exI[of _ "[]"]) simp
next
  case (3 sep x y ys)
  show ?case
  proof (cases j)
    case 0
    then show ?thesis
      by (intro exI[of _ "[]"] exI[of _ "sep @ join sep (y # ys)"]) simp
  next
    case (Suc k)
    with 3 obtain p r where "join sep (y # ys) = p @ (y # ys) ! k @ r" by fastforce
    with Suc show ?thesis by (intro exI[of _ "x @ sep @ p"] exI[of _ r]) simp
  qed
qed

lemma join_occurs_in_order:
  "i < j \<Longrightarrow> j < length xs \<Longrightarrow> \<exists>p m r. join sep xs = p @ xs ! i @ m @ xs ! j @ r"
proof (induction sep xs arbitrary: i j rule: join.induct)
  case (1 sep)
  then show ?case by simp
next
  case (2 sep x)
  then show ?case by simp
next
  case (3 sep x y ys)
  from "3.prems" obtain k where j: "j = Suc k" and k: "k < length (y # ys)"
    by (cases j) auto
  show ?case
  proof (cases i)
    case 0
    from join_occurs[OF k, of sep] obtain p r where "join sep (y # ys) = p @ (y # ys) ! k @ r"
      by blast
    with 0 j show ?thesis
      by (intro exI[of _ "[]"] exI[of _ "sep @ p"] exI[of _ r]) simp
  next
    case (Suc i')
    with "3.prems" j have "i' < k" by simp
    from "3.IH"[OF this k] obtain p m r where
      "join sep (y # ys) = p @ (y # ys) ! i' @ m @ (y # ys) ! k @ r" by blast
    with Suc j show ?thesis
      by (intro exI[of _ "x @ sep @ p"] exI[of _ m] exI[of _ r]) simp
  qed
qed

lemma stringify_array:
  "xs \<noteq> [] \<Longrightarrow>
     stringify (JArr xs) =
       ''['' @ nl @ join ('','' @ nl) (map (\<lambda>x. ''  '' @ ser 2 x) xs) @ nl @ '']''"
  by (simp add: stringify_def spaces_def numeral_2_eq_2)

lemma quote_plain: "list_all plain_char s \<Longrightarrow> quote s = dq @ s @ dq"
proof -
  assume a: "list_all plain_char s"
  have "concat (map escape_char t) = t" if "list_all plain_char t" for t
    using that
  proof (induction t)
    case Nil
    then show ?case by simp
  next
    case (Cons c t)
    from Cons.prems have c: "plain_char c" and t: "list_all plain_char t" by simp_all
    from c have n: "32 \<le> (of_char c :: nat)" "c \<noteq> CHR 0x22" "c \<noteq> CHR 0x5C"
      by (simp_all add: plain_char_def)
    from n(2) have "(of_char c :: nat) \<noteq> of_char (CHR 0x22)" by (simp only: of_char_eq_iff) simp
    moreover from n(3) have "(of_char c :: nat) \<noteq> of_char (CHR 0x5C)"
      by (simp only: of_char_eq_iff) simp
    ultimately have "escape_char c = [c]" using n(1) by (simp add: escape_char_def Let_def)
    with Cons.IH[OF t] show ?case by simp
  qed
  with a show ?thesis by (simp add: quote_def dq_def)
qed

lemma quote_key:
  "quote ''pageContent'' = dq @ ''pageContent'' @ dq"
  "quote ''metadata'' = dq @ ''metadata'' @ dq"
  "quote ''id'' = dq @ ''id'' @ dq"
  by (rule quote_plain; simp add: plain_char_def)+

lemma ser_retrieved_document:
  "CHR '' '' # CHR '' '' # ser 2 (json_of_document (document_of p)) = fragment_text p"
proof -
  have "(2::nat) + 2 = 4" by simp
  then show ?thesis
    by (simp add: json_of_document_def document_of_def opt_field_def fragment_text_def
          quote_key spaces_def numeral_2_eq_2 eval_nat_numeral)
qed

lemma stringify_retrieved:
  "stringify (JArr (map json_of_document (map document_of ps))) =
     (if ps = [] then ''[]''
      else ''['' @ nl @ join ('','' @ nl) (map fragment_text ps) @ nl @ '']'')"
proof (cases "ps = []")
  case True
  then show ?thesis by (simp add: stringify_def)
next
  case False
  then have ne: "map json_of_document (map document_of ps) \<noteq> []" by simp
  have m: "map (\<lambda>x. ''  '' @ ser 2 x) (map json_of_document (map document_of ps)) =
          map fragment_text ps"
    by (simp add: comp_def ser_retrieved_document)
  show ?thesis
    by (simp only: stringify_array[OF ne] m False if_False)
qed

lemma prompt_of_retrieved:
  "generateSystemPrompt sources (map document_of ps) =
     prompt_head @
     join nl (map (\<lambda>s. ''- '' @ toUpperCase (type_s s) @ '': '' @ title_s s @
                         '' ('' @ timestamp_s s @ '')'') sources) @
     prompt_mid @
     (if ps = [] then ''[]''
      else ''['' @ nl @ join ('','' @ nl) (map fragment_text ps) @ nl @ '']'') @
     prompt_tail"
proof -
  have sl: "summary_line = (\<lambda>s. ''- '' @ toUpperCase (type_s s) @ '': '' @ title_s s @
                               '' ('' @ timestamp_s s @ '')'')"
    by (rule ext) (simp only: summary_line_def)
  show ?thesis
    by (simp only: generateSystemPrompt_def Let_def stringify_retrieved sl)
qed

lemma fragments_in_order:
  assumes "i < j" "j < length ps"
  shows "\<exists>p m r. generateSystemPrompt sources (map document_of ps) =
           p @ fragment_text (ps ! i) @ m @ fragment_text (ps ! j) @ r"
proof -
  from assms have ne: "ps \<noteq> []" by auto
  from assms have "j < length (map fragment_text ps)" by simp
  from join_occurs_in_order[OF assms(1) this, of "'','' @ nl"] obtain p m r where
    "join ('','' @ nl) (map fragment_text ps) =
       p @ map fragment_text ps ! i @ m @ map fragment_text ps ! j @ r" by blast
  with assms have j: "join ('','' @ nl) (map fragment_text ps) =
       p @ fragment_text (ps ! i) @ m @ fragment_text (ps ! j) @ r"
    by simp
  have "generateSystemPrompt sources (map document_of ps) =
       (prompt_head @ join nl (map summary_line sources) @ prompt_mid @ ''['' @ nl @ p) @
       fragment_text (ps ! i) @ m @ fragment_text (ps ! j) @ (r @ nl @ '']'' @ prompt_tail)"
    using ne by (simp only: generateSystemPrompt_def Let_def stringify_retrieved j) simp
  then show ?thesis by blast
qed

lemma stored_text_in_prompt:
  assumes i: "i < length ps" and pl: "list_all plain_char (content_p (ps ! i))"
  shows "\<exists>p r. generateSystemPrompt sources (map document_of ps) =
           p @ dq @ content_p (ps ! i) @ dq @ r"
proof -
  from i have ne: "ps \<noteq> []" by auto
  from i have "i < length (map fragment_text ps)" by simp
  from join_occurs[OF this, of "'','' @ nl"] i obtain p r where
    j: "join ('','' @ nl) (map fragment_text ps) = p @ fragment_text (ps ! i) @ r"
    by auto
  have f: "fragment_text (ps ! i) =
      (''  {'' @ nl @ ''    '' @ dq @ ''pageContent'' @ dq @ '': '') @
      dq @ content_p (ps ! i) @ dq @
      ('','' @ nl @ ''    '' @ dq @ ''metadata'' @ dq @ '': '' @ ser 4 (metadata_p (ps ! i)) @
       '','' @ nl @ ''    '' @ dq @ ''id'' @ dq @ '': '' @ quote (id_p (ps ! i)) @ nl @ ''  }'')"
    by (simp add: fragment_text_def quote_plain[OF pl])
  have "generateSystemPrompt sources (map document_of ps) =
      (prompt_head @ join nl (map summary_line sources) @ prompt_mid @ ''['' @ nl @ p @
       ''  {'' @ nl @ ''    '' @ dq @ ''pageContent'' @ dq @ '': '') @
      dq @ content_p (ps ! i) @ dq @
      ('','' @ nl @ ''    '' @ dq @ ''metadata'' @ dq @ '': '' @ ser 4 (metadata_p (ps ! i)) @
       '','' @ nl @ ''    '' @ dq @ ''id'' @ dq @ '': '' @ quote (id_p (ps ! i)) @ nl @ ''  }'' @
       r @ nl @ '']'' @ prompt_tail)"
    using ne by (simp only: generateSystemPrompt_def Let_def stringify_retrieved j f) simp
  then show ?thesis by blast
qed

lemma io_catch_rethrow: "io_catch m io_throw = m"
  by (rule ext) (simp add: io_catch_def io_throw_def split: prod.splits sum.splits)

lemma search_run:
  "search e name v k w = (Inr ps, w') \<Longrightarrow>
     \<exists>c. collections w' name = Some c \<and> length v = size_c c \<and>
         ps = take k (rank e v (points_c c)) \<and> globalSourcesContext w' = globalSourcesContext w \<and>
         completions w' = completions w"
  by (auto simp: search_def io_bind_def request_def
           split: prod.splits sum.splits option.splits list.splits if_splits)

lemma retrieve_run:
  assumes "retrieve e k query w = (Inr ds, w')"
  shows "\<exists>v c. embed e query = Inr v \<and> collections w' collectionName = Some c \<and>
           length v = size_c c \<and> ds = map document_of (take k (rank e v (points_c c))) \<and>
           globalSourcesContext w' = globalSourcesContext w \<and> completions w' = completions w"
proof (cases "embed e query")
  case (Inl err)
  with assms show ?thesis by (simp add: retrieve_def io_bind_def io_lift_def)
next
  case (Inr v)
  obtain r0 w0 where en: "vs_ensureCollection e None w = (r0, w0)"
    by (cases "vs_ensureCollection e None w")
  from store_only_registry[OF store_only_vs_ensureCollection en]
       store_only_completions[OF store_only_vs_ensureCollection en]
  have w0: "globalSourcesContext w0 = globalSourcesContext w" "completions w0 = completions w"
    by simp_all
  show ?thesis
  proof (cases r0)
    case (Inl err)
    with assms Inr en show ?thesis by (simp add: retrieve_def io_bind_def io_lift_def)
  next
    case r0: (Inr u)
    obtain r1 w1 where s: "search e collectionName v k w0 = (r1, w1)"
      by (cases "search e collectionName v k w0")
    show ?thesis
    proof (cases r1)
      case (Inl err)
      with assms Inr en r0 s show ?thesis by (simp add: retrieve_def io_bind_def io_lift_def)
    next
      case r1: (Inr ps)
      with assms Inr en r0 s have eq: "ds = map document_of ps" "w' = w1"
        by (simp_all add: retrieve_def io_bind_def io_lift_def io_return_def)
      from s r1 search_run[of e collectionName v k w0 ps w1] eq Inr w0 show ?thesis by auto
    qed
  qed
qed

lemma chat_run:
  assumes "chat e q w = (Inr res, w')"
  shows "\<exists>w1 w2. fromExistingCollection e w = (Inr (), w1) \<and>
           retrieve e 5 q w1 = (Inr (sourceDocuments res), w2) \<and>
           generate e (generateSystemPrompt (globalSourcesContext w2) (sourceDocuments res)) q =
             Inr (text_r res) \<and>
           w' = w2\<lparr>completions := completions w2 @
                  [(generateSystemPrompt (globalSourcesContext w2) (sourceDocuments res), q)]\<rparr>"
proof -
  obtain r1 w1 where a: "fromExistingCollection e w = (r1, w1)"
    by (cases "fromExistingCollection e w")
  obtain r2 w2 where b: "retrieve e 5 q w1 = (r2, w2)" by (cases "retrieve e 5 q w1")
  show ?thesis
  proof (cases r1)
    case (Inl err)
    with assms a show ?thesis by (simp add: chat_def io_catch_rethrow io_bind_def)
  next
    case r1: (Inr u)
    show ?thesis
    proof (cases r2)
      case (Inl err)
      with assms a b r1 show ?thesis by (simp add: chat_def io_catch_rethrow io_bind_def)
    next
      case r2: (Inr ds)
      show ?thesis
      proof (cases "generate e (generateSystemPrompt (globalSourcesContext w2) ds) q")
        case (Inl err)
        with assms a b r1 r2 show ?thesis
          by (simp add: chat_def io_catch_rethrow io_bind_def completions_create_def)
      next
        case (Inr answer)
        with assms a b r1 r2 show ?thesis
          by (auto simp: chat_def io_catch_rethrow io_bind_def completions_create_def io_return_def)
      qed
    qed
  qed
qed

text \<open>
  C6: a \<^verbatim>\<open>chat\<close> call that returns has embedded the question and asked the store for
  the 5 nearest neighbours: the returned \<^verbatim>\<open>sourceDocuments\<close> are, in the order of the
  store's ranking, the first five points of it (at most five), each with the stored text,
  the stored metadata and the id of its point. The registry is not changed. The generation
  service has received one request, with the question and the system prompt: the heading,
  one entry for every source of the registry in registry order (type in upper case,
  title, timestamp) joined by newlines, and then the JSON text of the retrieved fragments
  in the order of the ranking, each with its stored text, metadata and id, followed by the
  instructions. The texts of two fragments stand in the prompt in ranking order, and a
  stored text without quotes, backslashes and control characters stands in the prompt as
  it is, between quotes.
\<close>

theorem chat_retrieval_and_prompt:
  assumes run: "chat e q w = (Inr res, w')"
  shows "\<exists>v c ranked prompt.
           embed e q = Inr v \<and> collections w' collectionName = Some c \<and>
           ranked = take 5 (rank e v (points_c c)) \<and> length ranked \<le> 5 \<and>
           length (sourceDocuments res) = length ranked \<and>
           map pageContent (sourceDocuments res) = map content_p ranked \<and>
           map metadata_d (sourceDocuments res) = map metadata_p ranked \<and>
           map id_d (sourceDocuments res) = map (\<lambda>p. Some (id_p p)) ranked \<and>
           globalSourcesContext w' = globalSourcesContext w \<and>
           prompt =
             prompt_head @
             join nl (map (\<lambda>s. ''- '' @ toUpperCase (type_s s) @ '': '' @ title_s s @
                                 '' ('' @ timestamp_s s @ '')'') (globalSourcesContext w)) @
             prompt_mid @
             (if ranked = [] then ''[]''
              else ''['' @ nl @ join ('','' @ nl) (map fragment_text ranked) @ nl @ '']'') @
             prompt_tail \<and>
           completions w' = completions w @ [(prompt, q)] \<and>
           generate e prompt q = Inr (text_r res) \<and>
           (\<forall>i j. i < j \<and> j < length ranked \<longrightarrow>
              (\<exists>p m r. prompt = p @ fragment_text (ranked ! i) @ m @ fragment_text (ranked ! j) @ r)) \<and>
           (\<forall>i. i < length ranked \<and> list_all plain_char (content_p (ranked ! i)) \<longrightarrow>
              (\<exists>p r. prompt = p @ dq @ content_p (ranked ! i) @ dq @ r))"
proof -
  from chat_run[OF run] obtain w1 w2 where
    a: "fromExistingCollection e w = (Inr (), w1)" and
    b: "retrieve e 5 q w1 = (Inr (sourceDocuments res), w2)" and
    g: "generate e (generateSystemPrompt (globalSourcesContext w2) (sourceDocuments res)) q =
          Inr (text_r res)" and
    w': "w' = w2\<lparr>completions := completions w2 @
           [(generateSystemPrompt (globalSourcesContext w2) (sourceDocuments res), q)]\<rparr>"
    by blast
  have so: "store_only (fromExistingCollection e)"
    by (simp add: fromExistingCollection_def)
  from store_only_registry[OF so a] store_only_completions[OF so a]
  have w1: "globalSourcesContext w1 = globalSourcesContext w" "completions w1 = completions w"
    by simp_all
  from retrieve_run[OF b] obtain v c where
    v: "embed e q = Inr v" and c: "collections w2 collectionName = Some c" and
    ds: "sourceDocuments res = map document_of (take 5 (rank e v (points_c c)))" and
    w2: "globalSourcesContext w2 = globalSourcesContext w1" "completions w2 = completions w1"
    by blast
  define ranked where "ranked = take 5 (rank e v (points_c c))"
  define prompt where "prompt = generateSystemPrompt (globalSourcesContext w) (map document_of ranked)"
  have len: "length ranked \<le> 5" by (simp add: ranked_def)
  from ds have ds': "sourceDocuments res = map document_of ranked" by (simp add: ranked_def)
  have m1: "map pageContent (sourceDocuments res) = map content_p ranked"
    and m2: "map metadata_d (sourceDocuments res) = map metadata_p ranked"
    and m3: "map id_d (sourceDocuments res) = map (\<lambda>p. Some (id_p p)) ranked"
    by (simp_all add: ds' document_of_def comp_def)
  have eq: "prompt =
             prompt_head @
             join nl (map (\<lambda>s. ''- '' @ toUpperCase (type_s s) @ '': '' @ title_s s @
                                 '' ('' @ timestamp_s s @ '')'') (globalSourcesContext w)) @
             prompt_mid @
             (if ranked = [] then ''[]''
              else ''['' @ nl @ join ('','' @ nl) (map fragment_text ranked) @ nl @ '']'') @
             prompt_tail"
    unfolding prompt_def by (rule prompt_of_retrieved)
  have ord: "\<forall>i j. i < j \<and> j < length ranked \<longrightarrow>
              (\<exists>p m r. prompt = p @ fragment_text (ranked ! i) @ m @ fragment_text (ranked ! j) @ r)"
    unfolding prompt_def using fragments_in_order by blast
  have verb: "\<forall>i. i < length ranked \<and> list_all plain_char (content_p (ranked ! i)) \<longrightarrow>
              (\<exists>p r. prompt = p @ dq @ content_p (ranked ! i) @ dq @ r)"
    unfolding prompt_def using stored_text_in_prompt by blast
  from w' w1 w2 ds' have comp: "completions w' = completions w @ [(prompt, q)]"
    by (simp add: prompt_def)
  from g w1 w2 ds' have gen: "generate e prompt q = Inr (text_r res)"
    by (simp add: prompt_def)
  from w' c have c': "collections w' collectionName = Some c" by simp
  from w' w1 w2 have reg: "globalSourcesContext w' = globalSourcesContext w" by simp
  from v c' len ds' m1 m2 m3 reg eq comp gen ord verb show ?thesis
    by (intro exI[of _ v] exI[of _ c] exI[of _ ranked] exI[of _ prompt])
       (simp add: ranked_def[symmetric])
qed

text \<open>An example run of \<^verbatim>\<open>chat\<close>: the collection holds six points, the store
  ranks them as they are, and the first five come back.\<close>

lemma example_point_length: "length (vector_p (example_point t)) = 3072"
  by (simp add: example_point_def)

lemma example_chat_run:
  "chat example_env ''What color is the sky?''
     (example_world [example_source ''source_1_a'' ''Note1''] example_points []) =
   (Inr \<lparr>text_r = ''The sky is blue.'',
         sourceDocuments = map document_of (take 5 example_points)\<rparr>,
    (example_world [example_source ''source_1_a'' ''Note1''] example_points [])
      \<lparr>completions :=
         [(generateSystemPrompt [example_source ''source_1_a'' ''Note1'']
             (map document_of (take 5 example_points)),
           ''What color is the sky?'')]\<rparr>)"
  by (simp add: chat_def io_catch_rethrow io_bind_def fromExistingCollection_def
        vs_ensureCollection_def getCollections_def request_def example_world_def io_return_def
        retrieve_def io_lift_def example_env_def search_def completions_create_def
        example_points_def example_point_length)

text \<open>The system prompt for a registry of one source and two retrieved fragments.\<close>

lemma example_prompt:
  "generateSystemPrompt [example_source ''source_1_a'' ''Note1'']
     (map document_of [example_point ''one'', example_point ''two'']) =
   prompt_head @ ''- TEXT: Note1 (2023-11-14T22:13:20.000Z)'' @ prompt_mid @
   ''['' @ nl @
   ''  {'' @ nl @
   ''    '' @ dq @ ''pageContent'' @ dq @ '': '' @ dq @ ''one'' @ dq @ '','' @ nl @
   ''    '' @ dq @ ''metadata'' @ dq @ '': {'' @ nl @
   ''      '' @ dq @ ''type'' @ dq @ '': '' @ dq @ ''text'' @ dq @ '','' @ nl @
   ''      '' @ dq @ ''title'' @ dq @ '': '' @ dq @ ''Note1'' @ dq @ nl @
   ''    },'' @ nl @
   ''    '' @ dq @ ''id'' @ dq @ '': '' @ dq @ ''id-one'' @ dq @ nl @
   ''  },'' @ nl @
   ''  {'' @ nl @
   ''    '' @ dq @ ''pageContent'' @ dq @ '': '' @ dq @ ''two'' @ dq @ '','' @ nl @
   ''    '' @ dq @ ''metadata'' @ dq @ '': {'' @ nl @
   ''      '' @ dq @ ''type'' @ dq @ '': '' @ dq @ ''text'' @ dq @ '','' @ nl @
   ''      '' @ dq @ ''title'' @ dq @ '': '' @ dq @ ''Note1'' @ dq @ nl @
   ''    },'' @ nl @
   ''    '' @ dq @ ''id'' @ dq @ '': '' @ dq @ ''id-two'' @ dq @ nl @
   ''  }'' @ nl @
   '']'' @ prompt_tail"
  by code_simp

lemma example_chat_run_two:
  "chat example_env ''What color is the sky?''
     (example_world [example_source ''source_1_a'' ''Note1'']
        [example_point ''one'', example_point ''two''] []) =
   (Inr \<lparr>text_r = ''The sky is blue.'',
         sourceDocuments = map document_of [example_point ''one'', example_point ''two'']\<rparr>,
    (example_world [example_source ''source_1_a'' ''Note1'']
        [example_point ''one'', example_point ''two''] [])
      \<lparr>completions :=
         [(generateSystemPrompt [example_source ''source_1_a'' ''Note1'']
             (map document_of [example_point ''one'', example_point ''two'']),
           ''What color is the sky?'')]\<rparr>)"
  by (simp add: chat_def io_catch_rethrow io_bind_def fromExistingCollection_def
        vs_ensureCollection_def getCollections_def request_def example_world_def io_return_def
        retrieve_def io_lift_def example_env_def search_def completions_create_def
        example_point_length)

theorem chat_retrieval_and_prompt_witness:
  "fst (chat example_env ''What color is the sky?''
     (example_world [example_source ''source_1_a'' ''Note1''] example_points [])) =
     Inr \<lparr>text_r = ''The sky is blue.'',
          sourceDocuments = map document_of (take 5 example_points)\<rparr> \<and>
   length (sourceDocuments \<lparr>text_r = ''The sky is blue.'',
          sourceDocuments = map document_of (take 5 example_points)\<rparr>) \<le> 5 \<and>
   length example_points = 6 \<and>
   map pageContent (sourceDocuments \<lparr>text_r = ''The sky is blue.'',
          sourceDocuments = map document_of (take 5 example_points)\<rparr>) =
     [''one'', ''two'', ''three'', ''four'', ''five''] \<and>
   map id_d (sourceDocuments \<lparr>text_r = ''The sky is blue.'',
          sourceDocuments = map document_of (take 5 example_points)\<rparr>) =
     [Some ''id-one'', Some ''id-two'', Some ''id-three'', Some ''id-four'', Some ''id-five''] \<and>
   completions (snd (chat example_env ''What color is the sky?''
     (example_world [example_source ''source_1_a'' ''Note1'']
        [example_point ''one'', example_point ''two''] []))) =
     [(
   prompt_head @ ''- TEXT: Note1 (2023-11-14T22:13:20.000Z)'' @ prompt_mid @
   ''['' @ nl @
   ''  {'' @ nl @
   ''    '' @ dq @ ''pageContent'' @ dq @ '': '' @ dq @ ''one'' @ dq @ '','' @ nl @
   ''    '' @ dq @ ''metadata'' @ dq @ '': {'' @ nl @
   ''      '' @ dq @ ''type'' @ dq @ '': '' @ dq @ ''text'' @ dq @ '','' @ nl @
   ''      '' @ dq @ ''title'' @ dq @ '': '' @ dq @ ''Note1'' @ dq @ nl @
   ''    },'' @ nl @
   ''    '' @ dq @ ''id'' @ dq @ '': '' @ dq @ ''id-one'' @ dq @ nl @
   ''  },'' @ nl @
   ''  {'' @ nl @
   ''    '' @ dq @ ''pageContent'' @ dq @ '': '' @ dq @ ''two'' @ dq @ '','' @ nl @
   ''    '' @ dq @ ''metadata'' @ dq @ '': {'' @ nl @
   ''      '' @ dq @ ''type'' @ dq @ '': '' @ dq @ ''text'' @ dq @ '','' @ nl @
   ''      '' @ dq @ ''title'' @ dq @ '': '' @ dq @ ''Note1'' @ dq @ nl @
   ''    },'' @ nl @
   ''    '' @ dq @ ''id'' @ dq @ '': '' @ dq @ ''id-two'' @ dq @ nl @
   ''  }'' @ nl @
   '']'' @ prompt_tail,
       ''What color is the sky?'')]"
proof -
  from chat_retrieval_and_prompt[OF example_chat_run]
  have "length (sourceDocuments \<lparr>text_r = ''The sky is blue.'',
          sourceDocuments = map document_of (take 5 example_points)\<rparr>) \<le> 5"
    by (elim exE conjE) simp
  moreover have "fst (chat example_env ''What color is the sky?''
     (example_world [example_source ''source_1_a'' ''Note1''] example_points [])) =
     Inr \<lparr>text_r = ''The sky is blue.'',
          sourceDocuments = map document_of (take 5 example_points)\<rparr>"
    by (simp add: example_chat_run)
  moreover have "length example_points = 6" by (simp add: example_points_def)
  moreover have "map pageContent (sourceDocuments \<lparr>text_r = ''The sky is blue.'',
          sourceDocuments = map document_of (take 5 example_points)\<rparr>) =
     [''one'', ''two'', ''three'', ''four'', ''five'']"
    by (simp add: example_points_def example_point_def document_of_def)
  moreover have "map id_d (sourceDocuments \<lparr>text_r = ''The sky is blue.'',
          sourceDocuments = map document_of (take 5 example_points)\<rparr>) =
     [Some ''id-one'', Some ''id-two'', Some ''id-three'', Some ''id-four'', Some ''id-five'']"
    by (simp add: example_points_def example_point_def document_of_def)
  moreover have "completions (snd (chat example_env ''What color is the sky?''
     (example_world [example_source ''source_1_a'' ''Note1'']
        [example_point ''one'', example_point ''two''] []))) =
     [(generateSystemPrompt [example_source ''source_1_a'' ''Note1'']
             (map document_of [example_point ''one'', example_point ''two'']),
       ''What color is the sky?'')]"
    by (simp add: example_chat_run_two)
  ultimately show ?thesis by (simp only: example_prompt)
qed

end
